theory Spec2Isabelle
  imports Main "HOL-Library.List_Lexorder"
begin

section \<open>Python strings\<close>

text \<open>
  A Python \<^verbatim>\<open>str\<close> is a sequence of Unicode code points, so it is modelled as a list of
  code points. The Cyrillic literals of the source are written out as their code points,
  with a transliteration beside each of them.
\<close>

type_synonym ustr = "nat list"

text \<open>\<^verbatim>\<open>str.isspace\<close> for one code point: the Unicode whitespace that \<^verbatim>\<open>strip()\<close> and
  \<^verbatim>\<open>split()\<close> without arguments work on.\<close>

definition isspace :: "nat \<Rightarrow> bool" where
  "isspace c \<longleftrightarrow>
     (9 \<le> c \<and> c \<le> 13) \<or> (28 \<le> c \<and> c \<le> 32) \<or> c = 133 \<or> c = 160 \<or> c = 5760 \<or>
     (8192 \<le> c \<and> c \<le> 8202) \<or> c = 8232 \<or> c = 8233 \<or> c = 8239 \<or> c = 8287 \<or> c = 12288"

text \<open>\<^verbatim>\<open>s.strip()\<close>\<close>

definition strip :: "ustr \<Rightarrow> ustr" where
  "strip s = rev (dropWhile isspace (rev (dropWhile isspace s)))"

text \<open>\<^verbatim>\<open>s.strip(chars)\<close>\<close>

definition strip_chars :: "ustr \<Rightarrow> ustr \<Rightarrow> ustr" where
  "strip_chars chars s =
     rev (dropWhile (\<lambda>c. c \<in> set chars) (rev (dropWhile (\<lambda>c. c \<in> set chars) s)))"

text \<open>\<^verbatim>\<open>s.startswith(p)\<close>\<close>

fun startswith :: "ustr \<Rightarrow> ustr \<Rightarrow> bool" where
  "startswith s [] = True"
| "startswith [] (p # ps) = False"
| "startswith (c # cs) (p # ps) = (c = p \<and> startswith cs ps)"

text \<open>\<^verbatim>\<open>s.find(sub)\<close>: the lowest index at which \<^verbatim>\<open>sub\<close> occurs, \<open>None\<close> for Python's -1.\<close>

fun str_find :: "ustr \<Rightarrow> ustr \<Rightarrow> nat option" where
  "str_find [] sub = (if sub = [] then Some 0 else None)"
| "str_find (c # cs) sub =
     (if startswith (c # cs) sub then Some 0 else map_option Suc (str_find cs sub))"

text \<open>\<^verbatim>\<open>sub in s\<close>\<close>

definition contains :: "ustr \<Rightarrow> ustr \<Rightarrow> bool" where
  "contains s sub \<longleftrightarrow> str_find s sub \<noteq> None"

text \<open>\<^verbatim>\<open>s.split()\<close>: the maximal runs of non-whitespace, in order. The first argument is
  the word being read.\<close>

fun split_words :: "ustr \<Rightarrow> ustr \<Rightarrow> ustr list" where
  "split_words cur [] = (if cur = [] then [] else [cur])"
| "split_words cur (c # cs) =
     (if isspace c then (if cur = [] then split_words [] cs else cur # split_words [] cs)
      else split_words (cur @ [c]) cs)"

definition str_split :: "ustr \<Rightarrow> ustr list" where
  "str_split s = split_words [] s"

text \<open>\<^verbatim>\<open>s.split(maxsplit=n)\<close>: at most \<open>n\<close> words are split off; what is left, from its
  first non-whitespace character to the end of the string, is the last part.\<close>

fun str_split_max :: "nat \<Rightarrow> ustr \<Rightarrow> ustr list" where
  "str_split_max 0 s = (let r = dropWhile isspace s in if r = [] then [] else [r])"
| "str_split_max (Suc n) s =
     (let r = dropWhile isspace s in
      if r = [] then []
      else takeWhile (\<lambda>c. \<not> isspace c) r # str_split_max n (dropWhile (\<lambda>c. \<not> isspace c) r))"

text \<open>\<^verbatim>\<open>s.replace(old, new)\<close> for a one-character \<^verbatim>\<open>old\<close>\<close>

definition str_replace :: "nat \<Rightarrow> ustr \<Rightarrow> ustr \<Rightarrow> ustr" where
  "str_replace old new s = concat (map (\<lambda>c. if c = old then new else [c]) s)"

text \<open>\<^verbatim>\<open>sep.join(parts)\<close>\<close>

fun join :: "ustr \<Rightarrow> ustr list \<Rightarrow> ustr" where
  "join sep [] = []"
| "join sep [x] = x"
| "join sep (x # y # ys) = x @ sep @ join sep (y # ys)"

section \<open>The literals of the source\<close>

text \<open>handlers.py:115: \<^verbatim>\<open>Dialog nedostupen: avtor ne nayden.\<close>\<close>

definition msg_dialog_unavailable :: ustr where
  "msg_dialog_unavailable = [1044, 1080, 1072, 1083, 1086, 1075, 32, 1085, 1077, 1076,
     1086, 1089, 1090, 1091, 1087, 1077, 1085, 58, 32, 1072, 1074, 1090, 1086, 1088, 32,
     1085, 1077, 32, 1085, 1072, 1081, 1076, 1077, 1085, 46]"

text \<open>handlers.py:125, before the author's name: \<^verbatim>\<open>Vy vstupili v besedu s \<close>\<close>

definition msg_entered_pre :: ustr where
  "msg_entered_pre = [1042, 1099, 32, 1074, 1089, 1090, 1091, 1087, 1080, 1083, 1080,
     32, 1074, 32, 1073, 1077, 1089, 1077, 1076, 1091, 32, 1089, 32]"

text \<open>handlers.py:125-126, after the author's name: \<^verbatim>\<open>.\n\nChtoby vyyti, otpravte komandu /stop ili /menu.\<close>\<close>

definition msg_entered_post :: ustr where
  "msg_entered_post = [46, 10, 10, 1063, 1090, 1086, 1073, 1099, 32, 1074, 1099, 1081,
     1090, 1080, 44, 32, 1086, 1090, 1087, 1088, 1072, 1074, 1100, 1090, 1077, 32, 1082,
     1086, 1084, 1072, 1085, 1076, 1091, 32, 47, 115, 116, 111, 112, 32, 1080, 1083,
     1080, 32, 47, 109, 101, 110, 117, 46]"

text \<open>handlers.py:132 and 158: \<^verbatim>\<open>Privet! Menya zovut Aleksandr Sergeevich Pushkin! Kak tebya zovut?\<close>\<close>

definition msg_greeting :: ustr where
  "msg_greeting = [1055, 1088, 1080, 1074, 1077, 1090, 33, 32, 1052, 1077, 1085, 1103,
     32, 1079, 1086, 1074, 1091, 1090, 32, 1040, 1083, 1077, 1082, 1089, 1072, 1085,
     1076, 1088, 32, 1057, 1077, 1088, 1075, 1077, 1077, 1074, 1080, 1095, 32, 1055,
     1091, 1096, 1082, 1080, 1085, 33, 32, 1050, 1072, 1082, 32, 1090, 1077, 1073, 1103,
     32, 1079, 1086, 1074, 1091, 1090, 63]"

text \<open>handlers.py:145: \<^verbatim>\<open>Avtor ne vybran. Ispolzuyte /start.\<close>\<close>

definition msg_no_author :: ustr where
  "msg_no_author = [1040, 1074, 1090, 1086, 1088, 32, 1085, 1077, 32, 1074, 1099, 1073,
     1088, 1072, 1085, 46, 32, 1048, 1089, 1087, 1086, 1083, 1100, 1079, 1091, 1081,
     1090, 1077, 32, 47, 115, 116, 97, 114, 116, 46]"

text \<open>handlers.py:150: \<^verbatim>\<open>Ne udalos zagruzit svedeniya ob avtore.\<close>\<close>

definition msg_author_load_failed :: ustr where
  "msg_author_load_failed = [1053, 1077, 32, 1091, 1076, 1072, 1083, 1086, 1089, 1100,
     32, 1079, 1072, 1075, 1088, 1091, 1079, 1080, 1090, 1100, 32, 1089, 1074, 1077,
     1076, 1077, 1085, 1080, 1103, 32, 1086, 1073, 32, 1072, 1074, 1090, 1086, 1088,
     1077, 46]"

text \<open>handlers.py:155: \<^verbatim>\<open>privet\<close>\<close>

definition w_privet :: ustr where
  "w_privet = [1087, 1088, 1080, 1074, 1077, 1090]"

text \<open>handlers.py:155: \<^verbatim>\<open>zdravstvuy\<close>\<close>

definition w_zdravstvuy :: ustr where
  "w_zdravstvuy = [1079, 1076, 1088, 1072, 1074, 1089, 1090, 1074, 1091, 1081]"

text \<open>handlers.py:155: \<^verbatim>\<open>zdravstvuyte\<close>\<close>

definition w_zdravstvuyte :: ustr where
  "w_zdravstvuyte = [1079, 1076, 1088, 1072, 1074, 1089, 1090, 1074, 1091, 1081, 1090,
     1077]"

text \<open>handlers.py:164: \<^verbatim>\<open>Ne rasslyshal imeni -- povtorite, pozhaluysta.\<close>\<close>

definition msg_name_repeat :: ustr where
  "msg_name_repeat = [1053, 1077, 32, 1088, 1072, 1089, 1089, 1083, 1099, 1096, 1072,
     1083, 32, 1080, 1084, 1077, 1085, 1080, 32, 8212, 32, 1087, 1086, 1074, 1090, 1086,
     1088, 1080, 1090, 1077, 44, 32, 1087, 1086, 1078, 1072, 1083, 1091, 1081, 1089,
     1090, 1072, 46]"

text \<open>handlers.py:168: \<^verbatim>\<open>menya zovut\<close>\<close>

definition w_menya_zovut :: ustr where
  "w_menya_zovut = [1084, 1077, 1085, 1103, 32, 1079, 1086, 1074, 1091, 1090]"

text \<open>handlers.py:171: \<^verbatim>\<open>menya\<close>\<close>

definition w_menya :: ustr where
  "w_menya = [1084, 1077, 1085, 1103]"

text \<open>handlers.py:175, the characters stripped from the name candidate: \<^verbatim>\<open> ,.!?;:"'()[]{}<><<>>---\<close>\<close>

definition name_strip_chars :: ustr where
  "name_strip_chars = [32, 44, 46, 33, 63, 59, 58, 34, 39, 40, 41, 91, 93, 123, 125, 60,
     62, 171, 187, 8212, 45]"

text \<open>handlers.py:177: \<^verbatim>\<open>Davayte vsyo zhe predstavimsya -- kak k vam obrashchatsya?\<close>\<close>

definition msg_introduce :: ustr where
  "msg_introduce = [1044, 1072, 1074, 1072, 1081, 1090, 1077, 32, 1074, 1089, 1105, 32,
     1078, 1077, 32, 1087, 1088, 1077, 1076, 1089, 1090, 1072, 1074, 1080, 1084, 1089,
     1103, 32, 8212, 32, 1082, 1072, 1082, 32, 1082, 32, 1074, 1072, 1084, 32, 1086,
     1073, 1088, 1072, 1097, 1072, 1090, 1100, 1089, 1103, 63]"

text \<open>handlers.py:182, before the name: \<^verbatim>\<open>Privet, \<close>\<close>

definition msg_hello_pre :: ustr where
  "msg_hello_pre = [1055, 1088, 1080, 1074, 1077, 1090, 44, 32]"

text \<open>handlers.py:182, after the name: \<^verbatim>\<open>! Khochesh, rasskazhu stikh?\<close>\<close>

definition msg_hello_post :: ustr where
  "msg_hello_post = [33, 32, 1061, 1086, 1095, 1077, 1096, 1100, 44, 32, 1088, 1072,
     1089, 1089, 1082, 1072, 1078, 1091, 32, 1089, 1090, 1080, 1093, 63]"

text \<open>handlers.py:187 and 207: \<^verbatim>\<open>net\<close>\<close>

definition w_net :: ustr where
  "w_net = [1085, 1077, 1090]"

text \<open>handlers.py:187: \<^verbatim>\<open>nea\<close>\<close>

definition w_nea :: ustr where
  "w_nea = [1085, 1077, 1072]"

text \<open>handlers.py:187: \<^verbatim>\<open>ne khochu\<close>\<close>

definition w_ne_khochu :: ustr where
  "w_ne_khochu = [1085, 1077, 32, 1093, 1086, 1095, 1091]"

text \<open>handlers.py:187 and 207: \<^verbatim>\<open>ne nado\<close>\<close>

definition w_ne_nado :: ustr where
  "w_ne_nado = [1085, 1077, 32, 1085, 1072, 1076, 1086]"

text \<open>handlers.py:189: \<^verbatim>\<open>Kak skazhesh! No znay: moy stikh vsegda na izgotovke, stoit lish shchyolknut veerom.\<close>\<close>

definition msg_decline_offer :: ustr where
  "msg_decline_offer = [1050, 1072, 1082, 32, 1089, 1082, 1072, 1078, 1077, 1096, 1100,
     33, 32, 1053, 1086, 32, 1079, 1085, 1072, 1081, 58, 32, 1084, 1086, 1081, 32, 1089,
     1090, 1080, 1093, 32, 1074, 1089, 1077, 1075, 1076, 1072, 32, 1085, 1072, 32, 1080,
     1079, 1075, 1086, 1090, 1086, 1074, 1082, 1077, 44, 32, 1089, 1090, 1086, 1080,
     1090, 32, 1083, 1080, 1096, 1100, 32, 1097, 1105, 1083, 1082, 1085, 1091, 1090,
     1100, 32, 1074, 1077, 1077, 1088, 1086, 1084, 46]"

text \<open>handlers.py:194, 202 and 217: \<^verbatim>\<open>rasskazhi\<close>\<close>

definition w_rasskazhi :: ustr where
  "w_rasskazhi = [1088, 1072, 1089, 1089, 1082, 1072, 1078, 1080]"

text \<open>handlers.py:194: \<^verbatim>\<open>davay\<close>\<close>

definition w_davay :: ustr where
  "w_davay = [1076, 1072, 1074, 1072, 1081]"

text \<open>handlers.py:194 and 202: \<^verbatim>\<open>prochitay\<close>\<close>

definition w_prochitay :: ustr where
  "w_prochitay = [1087, 1088, 1086, 1095, 1080, 1090, 1072, 1081]"

text \<open>handlers.py:195: \<^verbatim>\<open>da\<close>\<close>

definition w_da :: ustr where
  "w_da = [1076, 1072]"

text \<open>handlers.py:195: \<^verbatim>\<open>khochu\<close>\<close>

definition w_khochu :: ustr where
  "w_khochu = [1093, 1086, 1095, 1091]"

text \<open>handlers.py:195: \<^verbatim>\<open>konechno\<close>\<close>

definition w_konechno :: ustr where
  "w_konechno = [1082, 1086, 1085, 1077, 1095, 1085, 1086]"

text \<open>handlers.py:195: \<^verbatim>\<open>aga\<close>\<close>

definition w_aga :: ustr where
  "w_aga = [1072, 1075, 1072]"

text \<open>handlers.py:201, spelled with U+0451: \<^verbatim>\<open>eshchyo\<close>\<close>

definition w_eshchyo :: ustr where
  "w_eshchyo = [1077, 1097, 1105]"

text \<open>handlers.py:201, spelled with U+0435: \<^verbatim>\<open>eshche\<close>\<close>

definition w_eshche :: ustr where
  "w_eshche = [1077, 1097, 1077]"

text \<open>handlers.py:202 and 217: \<^verbatim>\<open>stikh\<close>\<close>

definition w_stikh :: ustr where
  "w_stikh = [1089, 1090, 1080, 1093]"

text \<open>handlers.py:207: \<^verbatim>\<open>khvatit\<close>\<close>

definition w_khvatit :: ustr where
  "w_khvatit = [1093, 1074, 1072, 1090, 1080, 1090]"

text \<open>handlers.py:207: \<^verbatim>\<open>dostatochno\<close>\<close>

definition w_dostatochno :: ustr where
  "w_dostatochno = [1076, 1086, 1089, 1090, 1072, 1090, 1086, 1095, 1085, 1086]"

text \<open>handlers.py:209: \<^verbatim>\<open>Khorosho, priberegu rifmy do luchshego sluchaya. No stoit vam mignut -- i ya snova v stroyu!\<close>\<close>

definition msg_decline_more :: ustr where
  "msg_decline_more = [1061, 1086, 1088, 1086, 1096, 1086, 44, 32, 1087, 1088, 1080,
     1073, 1077, 1088, 1077, 1075, 1091, 32, 1088, 1080, 1092, 1084, 1099, 32, 1076,
     1086, 32, 1083, 1091, 1095, 1096, 1077, 1075, 1086, 32, 1089, 1083, 1091, 1095,
     1072, 1103, 46, 32, 1053, 1086, 32, 1089, 1090, 1086, 1080, 1090, 32, 1074, 1072,
     1084, 32, 1084, 1080, 1075, 1085, 1091, 1090, 1100, 32, 8212, 32, 1080, 32, 1103,
     32, 1089, 1085, 1086, 1074, 1072, 32, 1074, 32, 1089, 1090, 1088, 1086, 1102, 33]"

text \<open>handlers.py:220, before the titles: \<^verbatim>\<open>Mogu rasskazat stikhi: \<close>\<close>

definition msg_list_pre :: ustr where
  "msg_list_pre = [1052, 1086, 1075, 1091, 32, 1088, 1072, 1089, 1089, 1082, 1072, 1079,
     1072, 1090, 1100, 32, 1089, 1090, 1080, 1093, 1080, 58, 32]"

text \<open>handlers.py:220, after the titles: \<^verbatim>\<open>. Utochnite, kakoy vam nuzhen.\<close>\<close>

definition msg_list_post :: ustr where
  "msg_list_post = [46, 32, 1059, 1090, 1086, 1095, 1085, 1080, 1090, 1077, 44, 32,
     1082, 1072, 1082, 1086, 1081, 32, 1074, 1072, 1084, 32, 1085, 1091, 1078, 1077,
     1085, 46]"

text \<open>handlers.py:260: \<^verbatim>\<open>Do novykh vstrech! Ispolzuyte /start, chtoby nachat zanovo.\<close>\<close>

definition msg_end :: ustr where
  "msg_end = [1044, 1086, 32, 1085, 1086, 1074, 1099, 1093, 32, 1074, 1089, 1090, 1088,
     1077, 1095, 33, 32, 1048, 1089, 1087, 1086, 1083, 1100, 1079, 1091, 1081, 1090,
     1077, 32, 47, 115, 116, 97, 114, 116, 44, 32, 1095, 1090, 1086, 1073, 1099, 32,
     1085, 1072, 1095, 1072, 1090, 1100, 32, 1079, 1072, 1085, 1086, 1074, 1086, 46]"

text \<open>handlers.py:274: \<^verbatim>\<open>Dialog zavershyon. Ispolzuyte /start, chtoby nachat zanovo.\<close>\<close>

definition msg_stop :: ustr where
  "msg_stop = [1044, 1080, 1072, 1083, 1086, 1075, 32, 1079, 1072, 1074, 1077, 1088,
     1096, 1105, 1085, 46, 32, 1048, 1089, 1087, 1086, 1083, 1100, 1079, 1091, 1081,
     1090, 1077, 32, 47, 115, 116, 97, 114, 116, 44, 32, 1095, 1090, 1086, 1073, 1099,
     32, 1085, 1072, 1095, 1072, 1090, 1100, 32, 1079, 1072, 1085, 1086, 1074, 1086, 46]"

text \<open>handlers.py:283: \<^verbatim>\<open>Pokhozhe, seychas podkhodyashchikh stikhov pod rukoy net.\<close>\<close>

definition msg_no_poems :: ustr where
  "msg_no_poems = [1055, 1086, 1093, 1086, 1078, 1077, 44, 32, 1089, 1077, 1081, 1095,
     1072, 1089, 32, 1087, 1086, 1076, 1093, 1086, 1076, 1103, 1097, 1080, 1093, 32,
     1089, 1090, 1080, 1093, 1086, 1074, 32, 1087, 1086, 1076, 32, 1088, 1091, 1082,
     1086, 1081, 32, 1085, 1077, 1090, 46]"

text \<open>handlers.py:292: \<^verbatim>\<open>,.!?;:"'()[]{}<><<>>---\<close>\<close>

definition separators :: ustr where
  "separators = [44, 46, 33, 63, 59, 58, 34, 39, 40, 41, 91, 93, 123, 125, 60, 62, 171,
     187, 8212, 45]"

text \<open>ai.py:45-46: \<^verbatim>\<open>Ne udalos svyazatsya s literaturnoy muzoy -- server otvetil oshibkoy i oborval besedu. Ya uzhe gotovlyu pero k novoy popytke, poprobuyte napisat eshchyo raz cherez minutku.\<close>\<close>

definition msg_api_error :: ustr where
  "msg_api_error = [1053, 1077, 32, 1091, 1076, 1072, 1083, 1086, 1089, 1100, 32, 1089,
     1074, 1103, 1079, 1072, 1090, 1100, 1089, 1103, 32, 1089, 32, 1083, 1080, 1090,
     1077, 1088, 1072, 1090, 1091, 1088, 1085, 1086, 1081, 32, 1084, 1091, 1079, 1086,
     1081, 32, 8212, 32, 1089, 1077, 1088, 1074, 1077, 1088, 32, 1086, 1090, 1074, 1077,
     1090, 1080, 1083, 32, 1086, 1096, 1080, 1073, 1082, 1086, 1081, 32, 1080, 32, 1086,
     1073, 1086, 1088, 1074, 1072, 1083, 32, 1073, 1077, 1089, 1077, 1076, 1091, 46, 32,
     1071, 32, 1091, 1078, 1077, 32, 1075, 1086, 1090, 1086, 1074, 1083, 1102, 32, 1087,
     1077, 1088, 1086, 32, 1082, 32, 1085, 1086, 1074, 1086, 1081, 32, 1087, 1086, 1087,
     1099, 1090, 1082, 1077, 44, 32, 1087, 1086, 1087, 1088, 1086, 1073, 1091, 1081,
     1090, 1077, 32, 1085, 1072, 1087, 1080, 1089, 1072, 1090, 1100, 32, 1077, 1097,
     1105, 32, 1088, 1072, 1079, 32, 1095, 1077, 1088, 1077, 1079, 32, 1084, 1080, 1085,
     1091, 1090, 1082, 1091, 46]"

text \<open>ai.py:47, before the error code: \<^verbatim>\<open> (kod oshibki \<close>\<close>

definition msg_code_pre :: ustr where
  "msg_code_pre = [32, 40, 1082, 1086, 1076, 32, 1086, 1096, 1080, 1073, 1082, 1080, 32]"

text \<open>ai.py:47, after the error code: \<^verbatim>\<open>)\<close>\<close>

definition msg_code_post :: ustr where
  "msg_code_post = [41]"

text \<open>ai.py:54-55: \<^verbatim>\<open>Ya zadumalsya tak gluboko, chto chernila zastenchivo spryatalis. Poprobuyte pereformulirovat vopros -- i ya otvechu s prezhnim pushkinskim zadorom!\<close>\<close>

definition msg_empty_output :: ustr where
  "msg_empty_output = [1071, 32, 1079, 1072, 1076, 1091, 1084, 1072, 1083, 1089, 1103,
     32, 1090, 1072, 1082, 32, 1075, 1083, 1091, 1073, 1086, 1082, 1086, 44, 32, 1095,
     1090, 1086, 32, 1095, 1077, 1088, 1085, 1080, 1083, 1072, 32, 1079, 1072, 1089,
     1090, 1077, 1085, 1095, 1080, 1074, 1086, 32, 1089, 1087, 1088, 1103, 1090, 1072,
     1083, 1080, 1089, 1100, 46, 32, 1055, 1086, 1087, 1088, 1086, 1073, 1091, 1081,
     1090, 1077, 32, 1087, 1077, 1088, 1077, 1092, 1086, 1088, 1084, 1091, 1083, 1080,
     1088, 1086, 1074, 1072, 1090, 1100, 32, 1074, 1086, 1087, 1088, 1086, 1089, 32,
     8212, 32, 1080, 32, 1103, 32, 1086, 1090, 1074, 1077, 1095, 1091, 32, 1089, 32,
     1087, 1088, 1077, 1078, 1085, 1080, 1084, 32, 1087, 1091, 1096, 1082, 1080, 1085,
     1089, 1082, 1080, 1084, 32, 1079, 1072, 1076, 1086, 1088, 1086, 1084, 33]"

section \<open>The content repository (database.py)\<close>

record author =
  author_id :: int
  author_name :: ustr
  short_bio :: ustr
  bio :: ustr
  era :: ustr
  key_facts :: "(ustr \<times> ustr) list"
  style_description :: ustr

text \<open>The rows of the tables \<^verbatim>\<open>poems\<close>, \<^verbatim>\<open>characters\<close> and \<^verbatim>\<open>faq\<close>; the column
  \<^verbatim>\<open>keywords\<close> is given as the list that \<^verbatim>\<open>json.loads\<close> returns.\<close>

record poem =
  poem_author_id :: int
  poem_title :: ustr
  poem_text :: ustr
  poem_keywords :: "ustr list"

record character =
  character_author_id :: int
  character_name :: ustr
  character_description :: ustr
  character_keywords :: "ustr list"

record faq_entry =
  faq_author_id :: int
  faq_question :: ustr
  faq_answer :: ustr
  faq_keywords :: "ustr list"

text \<open>What \<^verbatim>\<open>get_author_works\<close> returns: the categories in order, each with its works
  (title, year, summary, excerpt).\<close>

type_synonym works = "(ustr \<times> (ustr \<times> int option \<times> ustr \<times> ustr option) list) list"

text \<open>What the call \<^verbatim>\<open>client.responses.create\<close> of ai.py does: it raises \<^verbatim>\<open>APIError\<close>, whose
  attribute \<^verbatim>\<open>code\<close> may be missing, or it returns a response, whose attribute
  \<^verbatim>\<open>output_text\<close> may be missing.\<close>

datatype upstream_result = APIError "ustr option" | Response "ustr option"

text \<open>
  Everything a turn reads and does not change. \<open>lower\<close> is Python's \<^verbatim>\<open>str.lower\<close>. The
  tables hold their rows in the order in which a \<^verbatim>\<open>SELECT\<close> without \<^verbatim>\<open>ORDER BY\<close> returns
  them. \<open>author_works\<close> is \<^verbatim>\<open>Database.get_author_works\<close>, whose result is only handed to the
  fallback adapter. \<open>create_response\<close> is the upstream model: the system prompt is a function
  of the author and the works (\<^verbatim>\<open>_build_system_prompt\<close>), the third argument is the user
  prompt.
\<close>

record env =
  lower :: "ustr \<Rightarrow> ustr"
  authors :: "author list"
  poems :: "poem list"
  characters :: "character list"
  faq :: "faq_entry list"
  author_works :: "int \<Rightarrow> works"
  create_response :: "author \<Rightarrow> works \<Rightarrow> ustr \<Rightarrow> upstream_result"

definition get_author :: "env \<Rightarrow> int \<Rightarrow> author option" where
  "get_author env aid = find (\<lambda>a. author_id a = aid) (authors env)"

definition poem_rows :: "env \<Rightarrow> int \<Rightarrow> poem list" where
  "poem_rows env aid = filter (\<lambda>row. poem_author_id row = aid) (poems env)"

text \<open>The f-string \<^verbatim>\<open>f"{title}\n\n{text}"\<close> of \<^verbatim>\<open>find_poem_text\<close> and \<^verbatim>\<open>_send_random_poem\<close>.\<close>

definition poem_reply :: "ustr \<Rightarrow> ustr \<Rightarrow> ustr" where
  "poem_reply title text = title @ [10, 10] @ text"

definition find_poem_text :: "env \<Rightarrow> int \<Rightarrow> ustr \<Rightarrow> ustr option" where
  "find_poem_text env aid user_text =
     (let normalized = lower env user_text in
      map_option (\<lambda>row. poem_reply (poem_title row) (poem_text row))
        (find (\<lambda>row. list_ex (\<lambda>keyword. contains normalized keyword) (poem_keywords row))
           (poem_rows env aid)))"

text \<open>\<^verbatim>\<open>ORDER BY title\<close> compares the UTF-8 encodings bytewise, which is the lexicographic
  order of the code points.\<close>

definition get_poem_titles :: "env \<Rightarrow> int \<Rightarrow> ustr list" where
  "get_poem_titles env aid = sort (map poem_title (poem_rows env aid))"

text \<open>\<^verbatim>\<open>random.choice(candidates)\<close> is the element at index \<open>r mod length candidates\<close>, for
  a random draw \<open>r\<close>: every candidate is the choice of some draw. A poem is returned as the
  pair of its title and text.\<close>

definition get_random_poem :: "env \<Rightarrow> nat \<Rightarrow> int \<Rightarrow> ustr set option \<Rightarrow> (ustr \<times> ustr) option" where
  "get_random_poem env r aid exclude_titles =
     (let candidates =
            map (\<lambda>row. (poem_title row, poem_text row))
              (filter (\<lambda>row. (case exclude_titles of None \<Rightarrow> True
                               | Some ex \<Rightarrow> ex = {} \<or> poem_title row \<notin> ex))
                 (poem_rows env aid))
      in if candidates = [] then None else Some (candidates ! (r mod length candidates)))"

definition find_character_insight :: "env \<Rightarrow> int \<Rightarrow> ustr \<Rightarrow> ustr option" where
  "find_character_insight env aid user_text =
     (let normalized = lower env user_text in
      map_option (\<lambda>row. character_name row @ [58, 32] @ character_description row)
        (find (\<lambda>row. list_ex (\<lambda>keyword. contains normalized keyword) (character_keywords row))
           (filter (\<lambda>row. character_author_id row = aid) (characters env))))"

definition find_faq_answer :: "env \<Rightarrow> int \<Rightarrow> ustr \<Rightarrow> ustr option" where
  "find_faq_answer env aid user_text =
     (let normalized = lower env user_text in
      map_option faq_answer
        (find (\<lambda>entry. list_ex (\<lambda>keyword. contains normalized keyword) (faq_keywords entry))
           (filter (\<lambda>entry. faq_author_id entry = aid) (faq env))))"

section \<open>The fallback adapter (ai.py)\<close>

definition generate_reply :: "env \<Rightarrow> author \<Rightarrow> works \<Rightarrow> ustr \<Rightarrow> ustr" where
  "generate_reply env author works user_message =
     (let user_prompt = strip user_message in
      case create_response env author works user_prompt of
        APIError code \<Rightarrow>
          msg_api_error @
          (case code of None \<Rightarrow> []
           | Some c \<Rightarrow> if c = [] then [] else msg_code_pre @ c @ msg_code_post)
      | Response output_text \<Rightarrow>
          (let text = strip (case output_text of None \<Rightarrow> [] | Some t \<Rightarrow> t)
           in if text \<noteq> [] then text else msg_empty_output))"

section \<open>The handlers (handlers.py)\<close>

datatype stage = Ask_name | Offer_poem | After_poem

text \<open>\<^verbatim>\<open>context.user_data\<close>: the five keys the handlers use; \<open>None\<close> is a missing key.\<close>

record user_data =
  dialog_author_id :: "int option"
  dialog_author_name :: "ustr option"
  dialog_stage :: "stage option"
  poems_used :: "ustr list option"
  user_name :: "ustr option"

text \<open>The calls a handler makes to the repository and to the fallback adapter.\<close>

datatype call =
    Get_author int
  | Get_random_poem int "ustr set option"
  | Find_poem_text int ustr
  | Get_poem_titles int
  | Find_character_insight int ustr
  | Find_faq_answer int ustr
  | Get_author_works int
  | Generate_reply author works ustr

text \<open>What a handler has done when it returns: the calls it made, the texts it sent, and
  the user data it leaves.\<close>

record outcome =
  calls :: "call list"
  replies :: "ustr list"
  data :: user_data

datatype py_error = IndexError

record message =
  message_text :: "ustr option"

text \<open>\<^verbatim>\<open>message.text or ""\<close>\<close>

definition text_or_empty :: "message \<Rightarrow> ustr" where
  "text_or_empty msg = (case message_text msg of None \<Rightarrow> [] | Some t \<Rightarrow> t)"

text \<open>\<^verbatim>\<open>if answer:\<close> on an optional string: \<open>None\<close> and the empty string are false.\<close>

definition truthy :: "ustr option \<Rightarrow> ustr option" where
  "truthy answer = (case answer of None \<Rightarrow> None | Some s \<Rightarrow> if s = [] then None else Some s)"

text \<open>\<^verbatim>\<open>_tokenize\<close>\<close>

definition tokenize :: "ustr \<Rightarrow> ustr set" where
  "tokenize text =
     set (filter (\<lambda>token. token \<noteq> [])
            (str_split (fold (\<lambda>char t. str_replace char [32] t) separators text)))"

text \<open>\<^verbatim>\<open>enter_dialog\<close>, for the author id of the callback data; \<open>has_message\<close> is
  \<^verbatim>\<open>query.message\<close> being there.\<close>

definition enter_dialog :: "env \<Rightarrow> int \<Rightarrow> bool \<Rightarrow> user_data \<Rightarrow> outcome" where
  "enter_dialog env aid has_message ud =
     (case get_author env aid of
        None \<Rightarrow> \<lparr>calls = [Get_author aid], replies = [msg_dialog_unavailable], data = ud\<rparr>
      | Some author \<Rightarrow>
          \<lparr>calls = [Get_author aid],
           replies = (msg_entered_pre @ author_name author @ msg_entered_post)
                     # (if has_message then [msg_greeting] else []),
           data = ud\<lparr>dialog_author_id := Some aid,
                      dialog_author_name := Some (author_name author),
                      dialog_stage := Some Ask_name,
                      poems_used := Some []\<rparr>\<rparr>)"

text \<open>\<^verbatim>\<open>_send_random_poem\<close>; the draw \<open>r\<close> is used by the one call of
  \<^verbatim>\<open>get_random_poem\<close> that reaches \<^verbatim>\<open>random.choice\<close>.\<close>

definition send_random_poem :: "env \<Rightarrow> nat \<Rightarrow> author \<Rightarrow> user_data \<Rightarrow> bool \<times> outcome" where
  "send_random_poem env r author ud =
     (let used = set (case poems_used ud of None \<Rightarrow> [] | Some l \<Rightarrow> l) in
      case get_random_poem env r (author_id author) (Some used) of
        Some (title, text) \<Rightarrow>
          (True,
           \<lparr>calls = [Get_random_poem (author_id author) (Some used)],
            replies = [poem_reply title text],
            data = ud\<lparr>poems_used :=
                        Some ((case poems_used ud of None \<Rightarrow> [] | Some l \<Rightarrow> l) @ [title])\<rparr>\<rparr>)
      | None \<Rightarrow>
          (case get_random_poem env r (author_id author) None of
             None \<Rightarrow>
               (False,
                \<lparr>calls = [Get_random_poem (author_id author) (Some used),
                          Get_random_poem (author_id author) None],
                 replies = [msg_no_poems],
                 data = ud\<lparr>poems_used := Some []\<rparr>\<rparr>)
           | Some (title, text) \<Rightarrow>
               (True,
                \<lparr>calls = [Get_random_poem (author_id author) (Some used),
                          Get_random_poem (author_id author) None],
                 replies = [poem_reply title text],
                 data = ud\<lparr>poems_used := Some [title]\<rparr>\<rparr>)))"

text \<open>Lines 162-183 of \<^verbatim>\<open>handle_dialog_message\<close>: the stage \<^verbatim>\<open>ask_name\<close>.\<close>

definition name_candidate :: "env \<Rightarrow> ustr \<Rightarrow> ustr" where
  "name_candidate env cleaned =
     (let lower_cleaned = lower env cleaned in
      case str_find lower_cleaned w_menya_zovut of
        Some i \<Rightarrow> strip (drop (i + length w_menya_zovut) cleaned)
      | None \<Rightarrow>
          if startswith lower_cleaned w_menya then
            (let parts = str_split_max 2 cleaned in
             if length parts \<ge> 2 then parts ! 1 else cleaned)
          else cleaned)"

definition ask_name :: "env \<Rightarrow> call list \<Rightarrow> user_data \<Rightarrow> ustr \<Rightarrow> py_error + outcome" where
  "ask_name env cs ud text =
     (let cleaned = strip text in
      if cleaned = [] then Inr \<lparr>calls = cs, replies = [msg_name_repeat], data = ud\<rparr>
      else
        let candidate = strip_chars name_strip_chars (name_candidate env cleaned) in
        if candidate = [] then Inr \<lparr>calls = cs, replies = [msg_introduce], data = ud\<rparr>
        else
          case str_split candidate of
            [] \<Rightarrow> Inl IndexError
          | name # _ \<Rightarrow>
              Inr \<lparr>calls = cs,
                   replies = [msg_hello_pre @ name @ msg_hello_post],
                   data = ud\<lparr>user_name := Some name, dialog_stage := Some Offer_poem\<rparr>\<rparr>)"

text \<open>Lines 186-198: the stage \<^verbatim>\<open>offer_poem\<close>. \<open>None\<close> is the fall-through to the rest of
  the handler.\<close>

definition offer_poem :: "env \<Rightarrow> nat \<Rightarrow> call list \<Rightarrow> author \<Rightarrow> user_data \<Rightarrow> ustr \<Rightarrow> outcome option" where
  "offer_poem env r cs author ud text_lower =
     (let tokens = tokenize text_lower in
      if tokens \<inter> {w_net, w_nea} \<noteq> {} \<or> contains text_lower w_ne_khochu
           \<or> contains text_lower w_ne_nado
      then Some \<lparr>calls = cs, replies = [msg_decline_offer], data = ud\<rparr>
      else if list_ex (\<lambda>phrase. contains text_lower phrase) [w_rasskazhi, w_davay, w_prochitay]
                \<or> tokens \<inter> {w_da, w_khochu, w_konechno, w_aga} \<noteq> {}
      then
        (let (sent, out) = send_random_poem env r author ud in
         Some \<lparr>calls = cs @ calls out, replies = replies out,
               data = (if sent then (data out)\<lparr>dialog_stage := Some After_poem\<rparr>
                       else data out)\<rparr>)
      else None)"

text \<open>Lines 201-211: the stage \<^verbatim>\<open>after_poem\<close>.\<close>

definition after_poem :: "env \<Rightarrow> nat \<Rightarrow> call list \<Rightarrow> author \<Rightarrow> user_data \<Rightarrow> ustr \<Rightarrow> outcome option" where
  "after_poem env r cs author ud text_lower =
     (if (contains text_lower w_eshchyo \<or> contains text_lower w_eshche)
          \<and> (contains text_lower w_rasskazhi \<or> contains text_lower w_prochitay
               \<or> contains text_lower w_stikh)
      then
        (let (sent, out) = send_random_poem env r author ud in
         Some \<lparr>calls = cs @ calls out, replies = replies out,
               data = (if sent then (data out)\<lparr>dialog_stage := Some After_poem\<rparr>
                       else data out)\<rparr>)
      else
        let tokens = tokenize text_lower in
        if tokens \<inter> {w_net, w_khvatit, w_dostatochno} \<noteq> {} \<or> contains text_lower w_ne_nado
        then Some \<lparr>calls = cs, replies = [msg_decline_more], data = ud\<rparr>
        else None)"

text \<open>Lines 213-236: the lookups in their order, then the fallback adapter.\<close>

definition resolution_chain :: "env \<Rightarrow> call list \<Rightarrow> int \<Rightarrow> author \<Rightarrow> user_data \<Rightarrow> ustr \<Rightarrow> ustr \<Rightarrow> outcome" where
  "resolution_chain env cs aid author ud text text_lower =
     (case truthy (find_poem_text env aid text_lower) of
        Some poem_answer \<Rightarrow>
          \<lparr>calls = cs @ [Find_poem_text aid text_lower], replies = [poem_answer], data = ud\<rparr>
      | None \<Rightarrow>
          if contains text_lower w_rasskazhi \<and> contains text_lower w_stikh then
            \<lparr>calls = cs @ [Find_poem_text aid text_lower, Get_poem_titles aid],
             replies = [msg_list_pre @ join [44, 32] (get_poem_titles env aid) @ msg_list_post],
             data = ud\<rparr>
          else
            (case truthy (find_character_insight env aid text_lower) of
               Some character_answer \<Rightarrow>
                 \<lparr>calls = cs @ [Find_poem_text aid text_lower,
                                 Find_character_insight aid text_lower],
                  replies = [character_answer], data = ud\<rparr>
             | None \<Rightarrow>
                 (case truthy (find_faq_answer env aid text_lower) of
                    Some faq_reply \<Rightarrow>
                      \<lparr>calls = cs @ [Find_poem_text aid text_lower,
                                      Find_character_insight aid text_lower,
                                      Find_faq_answer aid text_lower],
                       replies = [faq_reply], data = ud\<rparr>
                  | None \<Rightarrow>
                      (let works = author_works env aid in
                       \<lparr>calls = cs @ [Find_poem_text aid text_lower,
                                       Find_character_insight aid text_lower,
                                       Find_faq_answer aid text_lower,
                                       Get_author_works aid,
                                       Generate_reply author works text],
                        replies = [generate_reply env author works text],
                        data = ud\<rparr>))))"

text \<open>Lines 161-236 of \<^verbatim>\<open>handle_dialog_message\<close>: the rules of the stages, one after the
  other, and the lookups for a message that none of them has answered.\<close>

definition stage_rules :: "env \<Rightarrow> nat \<Rightarrow> call list \<Rightarrow> int \<Rightarrow> author \<Rightarrow> user_data \<Rightarrow> ustr \<Rightarrow> ustr \<Rightarrow> py_error + outcome" where
  "stage_rules env r cs aid author ud text text_lower =
     (let stage = dialog_stage ud in
      (if stage = Some Ask_name then ask_name env cs ud text
       else
         (case (if stage = Some Offer_poem
                then offer_poem env r cs author ud text_lower else None) of
            Some out \<Rightarrow> Inr out
          | None \<Rightarrow>
              (case (if stage = Some After_poem
                     then after_poem env r cs author ud text_lower else None) of
                 Some out \<Rightarrow> Inr out
               | None \<Rightarrow> Inr (resolution_chain env cs aid author ud text text_lower)))))"

text \<open>Lines 153-236: the turn of a session whose author has been loaded.\<close>

definition dialog_turn :: "env \<Rightarrow> nat \<Rightarrow> int \<Rightarrow> author \<Rightarrow> user_data \<Rightarrow> ustr \<Rightarrow> py_error + outcome" where
  "dialog_turn env r aid author ud text =
     (let text_lower = lower env text; stage = dialog_stage ud; cs = [Get_author aid] in
      (if text_lower \<in> {w_privet, w_zdravstvuy, w_zdravstvuyte} \<and> stage \<noteq> Some Ask_name
       then
         Inr \<lparr>calls = cs, replies = [msg_greeting],
              data = ud\<lparr>dialog_stage := Some Ask_name,
                         poems_used := Some (case poems_used ud of None \<Rightarrow> [] | Some l \<Rightarrow> l)\<rparr>\<rparr>
       else stage_rules env r cs aid author ud text text_lower))"

text \<open>\<^verbatim>\<open>handle_dialog_message\<close>, for \<^verbatim>\<open>update.message\<close> and the draw of this turn.\<close>

definition handle_dialog_message :: "env \<Rightarrow> nat \<Rightarrow> user_data \<Rightarrow> message option \<Rightarrow> py_error + outcome" where
  "handle_dialog_message env r ud update_message =
     (case update_message of
        None \<Rightarrow> Inr \<lparr>calls = [], replies = [], data = ud\<rparr>
      | Some msg \<Rightarrow>
          (let text = text_or_empty msg in
           (case dialog_author_id ud of
              None \<Rightarrow> Inr \<lparr>calls = [], replies = [msg_no_author], data = ud\<rparr>
            | Some aid \<Rightarrow>
                (if aid = 0 then Inr \<lparr>calls = [], replies = [msg_no_author], data = ud\<rparr>
                 else
                   (case get_author env aid of
                      None \<Rightarrow>
                        Inr \<lparr>calls = [Get_author aid], replies = [msg_author_load_failed],
                             data = ud\<rparr>
                    | Some author \<Rightarrow> dialog_turn env r aid author ud text)))))"

text \<open>
  What a turn of \<^verbatim>\<open>handle_dialog_message\<close> leaves behind when the \<^verbatim>\<open>reply_text\<close> it awaits
  raises: no handler catches the exception and main.py registers no error handler. Every
  branch changes the user data before it awaits its one reply, except lines 196-197 and
  203-204, which set the stage only after \<^verbatim>\<open>_send_random_poem\<close> has returned. So a turn that
  has asked for a random poem leaves the stage as it was, with the title already recorded
  by line 286, and every other turn leaves the user data of its outcome.
\<close>

definition asks_random_poem :: "call \<Rightarrow> bool" where
  "asks_random_poem c = (case c of Get_random_poem aid exclude_titles \<Rightarrow> True | _ \<Rightarrow> False)"

definition unsent :: "user_data \<Rightarrow> outcome \<Rightarrow> user_data" where
  "unsent ud out =
     (if list_ex asks_random_poem (calls out)
      then (data out)\<lparr>dialog_stage := dialog_stage ud\<rparr>
      else data out)"

text \<open>\<^verbatim>\<open>stop_dialog\<close> and \<^verbatim>\<open>end\<close>\<close>

definition stop_dialog :: "bool \<Rightarrow> user_data \<Rightarrow> outcome" where
  "stop_dialog has_message ud =
     \<lparr>calls = [], replies = (if has_message then [msg_stop] else []),
      data = ud\<lparr>dialog_author_id := None, dialog_author_name := None, dialog_stage := None,
                 poems_used := None, user_name := None\<rparr>\<rparr>"

definition end_handler :: "user_data \<Rightarrow> outcome" where
  "end_handler ud =
     \<lparr>calls = [], replies = [msg_end],
      data = \<lparr>dialog_author_id = None, dialog_author_name = None, dialog_stage = None,
              poems_used = None, user_name = None\<rparr>\<rparr>"

section \<open>Sessions and concrete data for the examples\<close>

text \<open>A session in dialogue with an author that the repository holds: what
  \<^verbatim>\<open>handle_dialog_message\<close> checks in lines 143-151 before it looks at the stage.\<close>

definition in_dialog :: "env \<Rightarrow> user_data \<Rightarrow> int \<Rightarrow> author \<Rightarrow> bool" where
  "in_dialog env ud aid author \<longleftrightarrow>
     dialog_author_id ud = Some aid \<and> aid \<noteq> 0 \<and> get_author env aid = Some author"

text \<open>\<^verbatim>\<open>str.lower\<close> on the Basic Latin and Cyrillic capitals (U+0041-U+005A, U+0400-U+042F);
  every other code point is kept. It is the \<open>lower\<close> of the example environment, whose
  texts have no other cased characters.\<close>

definition lower_code_point :: "nat \<Rightarrow> nat" where
  "lower_code_point c =
     (if 65 \<le> c \<and> c \<le> 90 then c + 32
      else if 1040 \<le> c \<and> c \<le> 1071 then c + 32
      else if 1024 \<le> c \<and> c \<le> 1039 then c + 80
      else c)"

definition basic_lower :: "ustr \<Rightarrow> ustr" where
  "basic_lower s = map lower_code_point s"

text \<open>An author with two poems (titles \<^verbatim>\<open>A\<close> and \<^verbatim>\<open>B\<close>), one character and one FAQ entry;
  the upstream model answers \<^verbatim>\<open>ok\<close>.\<close>

definition example_author :: author where
  "example_author =
     \<lparr>author_id = 1, author_name = [1055, 1091, 1096, 1082, 1080, 1085], short_bio = [],
      bio = [], era = [], key_facts = [], style_description = []\<rparr>"

definition example_env :: env where
  "example_env =
     \<lparr>lower = basic_lower,
      authors = [example_author],
      poems = [\<lparr>poem_author_id = 1, poem_title = [65], poem_text = [120],
                 poem_keywords = [[1079, 1080, 1084, 1072]]\<rparr>,
               \<lparr>poem_author_id = 1, poem_title = [66], poem_text = [121],
                 poem_keywords = [[1084, 1086, 1088, 1077]]\<rparr>],
      characters = [\<lparr>character_author_id = 1, character_name = [79],
                      character_description = [100], character_keywords = [[1086, 1085, 1077, 1075]]\<rparr>],
      faq = [\<lparr>faq_author_id = 1, faq_question = [113], faq_answer = [97],
               faq_keywords = [[1076, 1091, 1101, 1083]]\<rparr>],
      author_works = (\<lambda>aid. []),
      create_response = (\<lambda>author works prompt. Response (Some [111, 107]))\<rparr>"

text \<open>The user data that \<^verbatim>\<open>enter_dialog\<close> leaves for this author, at a given stage and with
  a given list of poems already used.\<close>

definition example_data :: "stage \<Rightarrow> ustr list \<Rightarrow> user_data" where
  "example_data st used =
     \<lparr>dialog_author_id = Some 1, dialog_author_name = Some (author_name example_author),
      dialog_stage = Some st, poems_used = Some used, user_name = None\<rparr>"

definition text_message :: "ustr \<Rightarrow> message option" where
  "text_message t = Some \<lparr>message_text = Some t\<rparr>"

text \<open>A turn that no rule of the state machine answers: the greeting rule does not fire, the
  stage is not \<^verbatim>\<open>ask_name\<close> (whose rules answer every message), and the rules of the stages
  \<^verbatim>\<open>offer_poem\<close> and \<^verbatim>\<open>after_poem\<close> fall through.\<close>

definition falls_through :: "env \<Rightarrow> nat \<Rightarrow> int \<Rightarrow> author \<Rightarrow> user_data \<Rightarrow> ustr \<Rightarrow> bool" where
  "falls_through env r aid author ud text_lower \<longleftrightarrow>
     text_lower \<notin> {w_privet, w_zdravstvuy, w_zdravstvuyte}
     \<and> dialog_stage ud \<noteq> Some Ask_name
     \<and> (dialog_stage ud = Some Offer_poem \<longrightarrow>
          offer_poem env r [Get_author aid] author ud text_lower = None)
     \<and> (dialog_stage ud = Some After_poem \<longrightarrow>
          after_poem env r [Get_author aid] author ud text_lower = None)"

text \<open>The three lookups of lines 213-232 have no answer for the lowercased message, and it
  is no request for the list of poems.\<close>

definition no_scripted_answer :: "env \<Rightarrow> int \<Rightarrow> ustr \<Rightarrow> bool" where
  "no_scripted_answer env aid text_lower \<longleftrightarrow>
     truthy (find_poem_text env aid text_lower) = None
     \<and> \<not> (contains text_lower w_rasskazhi \<and> contains text_lower w_stikh)
     \<and> truthy (find_character_insight env aid text_lower) = None
     \<and> truthy (find_faq_answer env aid text_lower) = None"

text \<open>The suffix of the reply to an \<^verbatim>\<open>APIError\<close> (ai.py:47).\<close>

definition error_code_suffix :: "ustr option \<Rightarrow> ustr" where
  "error_code_suffix code =
     (case code of None \<Rightarrow> [] | Some c \<Rightarrow> if c = [] then [] else msg_code_pre @ c @ msg_code_post)"

text \<open>The name capture as the specification words it (section 4.1, the row of
  \<^verbatim>\<open>AwaitingName\<close> for a non-empty input): the candidate by the three cases, then the first
  whitespace-delimited token of the candidate, then the surrounding punctuation stripped
  from that token.\<close>

definition spec_first_token :: "ustr \<Rightarrow> ustr" where
  "spec_first_token s = (case str_split s of [] \<Rightarrow> [] | token # _ \<Rightarrow> token)"

definition spec_captured_name :: "ustr \<Rightarrow> ustr" where
  "spec_captured_name input =
     (let candidate =
            (case str_find input w_menya_zovut of
               Some i \<Rightarrow> drop (i + length w_menya_zovut) input
             | None \<Rightarrow>
                 if startswith input w_menya \<and> length (str_split input) \<ge> 2
                 then str_split input ! 1
                 else strip input)
      in strip_chars name_strip_chars (spec_first_token candidate))"

text \<open>\<^verbatim>\<open>_send_random_poem\<close> called once for each draw of a list, each call on the user data
  the call before has left: the texts sent, in order, and the user data in the end.\<close>

fun send_poems :: "env \<Rightarrow> author \<Rightarrow> nat list \<Rightarrow> user_data \<Rightarrow> ustr list \<times> user_data" where
  "send_poems env author [] ud = ([], ud)"
| "send_poems env author (r # rs) ud =
     (let (sent, out) = send_random_poem env r author ud;
          (texts, ud') = send_poems env author rs (data out)
      in (replies out @ texts, ud'))"

text \<open>
  The user data a session can be in, together with two lists kept since the dialogue was
  entered: the texts the transport has sent to the user, and the texts the handlers have
  handed to the transport, sent or not. A send that raises ends its handler: what the
  handler has changed before stays, the text counts as handed over and not as sent, and
  nothing after it is done. In the rules, the first \<open>k\<close> sends of a handler return.

  A fresh \<^verbatim>\<open>user_data\<close> has no keys. \<^verbatim>\<open>enter_dialog\<close> with an author that is found starts the
  dialogue: it sets the keys and then sends its one or two texts. \<^verbatim>\<open>handle_dialog_message\<close>
  sends one text; when that send raises it leaves \<open>unsent\<close>. \<^verbatim>\<open>stop_dialog\<close> removes the keys
  before it sends; \<^verbatim>\<open>end\<close> sends before it clears. The handlers \<^verbatim>\<open>start\<close>, \<^verbatim>\<open>author_selected\<close>,
  \<^verbatim>\<open>show_bio\<close>, \<^verbatim>\<open>show_works\<close> and \<^verbatim>\<open>back_to_menu\<close> send texts and leave the user data alone
  (rule \<open>menu\<close>). A turn that raises before its send changes nothing. Failures of the
  repository are not part of the relation.
\<close>

inductive reachable :: "env \<Rightarrow> user_data \<Rightarrow> ustr list \<Rightarrow> ustr list \<Rightarrow> bool" for env :: env where
  fresh:
    "reachable env \<lparr>dialog_author_id = None, dialog_author_name = None, dialog_stage = None,
                    poems_used = None, user_name = None\<rparr> [] []"
| enter:
    "reachable env ud sent handed \<Longrightarrow> get_author env aid \<noteq> None \<Longrightarrow>
     reachable env (data (enter_dialog env aid has_message ud))
       (take k (replies (enter_dialog env aid has_message ud)))
       (take (Suc k) (replies (enter_dialog env aid has_message ud)))"
| enter_unknown:
    "reachable env ud sent handed \<Longrightarrow> get_author env aid = None \<Longrightarrow>
     reachable env (data (enter_dialog env aid has_message ud))
       (sent @ take k (replies (enter_dialog env aid has_message ud)))
       (handed @ take (Suc k) (replies (enter_dialog env aid has_message ud)))"
| message:
    "reachable env ud sent handed \<Longrightarrow>
     handle_dialog_message env r ud update_message = Inr out \<Longrightarrow>
     reachable env (data out) (sent @ replies out) (handed @ replies out)"
| message_unsent:
    "reachable env ud sent handed \<Longrightarrow>
     handle_dialog_message env r ud update_message = Inr out \<Longrightarrow> replies out \<noteq> [] \<Longrightarrow>
     reachable env (unsent ud out) sent (handed @ replies out)"
| stop:
    "reachable env ud sent handed \<Longrightarrow>
     reachable env (data (stop_dialog has_message ud))
       (sent @ take k (replies (stop_dialog has_message ud)))
       (handed @ take (Suc k) (replies (stop_dialog has_message ud)))"
| finish:
    "reachable env ud sent handed \<Longrightarrow>
     reachable env (data (end_handler ud)) (sent @ replies (end_handler ud))
       (handed @ replies (end_handler ud))"
| finish_unsent:
    "reachable env ud sent handed \<Longrightarrow>
     reachable env ud sent (handed @ replies (end_handler ud))"
| menu:
    "reachable env ud sent handed \<Longrightarrow>
     reachable env ud (sent @ take k texts) (handed @ texts)"

text \<open>\<^verbatim>\<open>context.user_data.get("poems_used", [])\<close>: the titles recorded as shown.\<close>

definition shown_titles :: "user_data \<Rightarrow> ustr list" where
  "shown_titles ud = (case poems_used ud of None \<Rightarrow> [] | Some l \<Rightarrow> l)"

text \<open>Every recorded title is the title of a poem of the author of the dialogue, and the
  text that delivers this poem is in the given list of texts.\<close>

definition titles_sent :: "env \<Rightarrow> user_data \<Rightarrow> ustr list \<Rightarrow> bool" where
  "titles_sent env ud sent \<longleftrightarrow>
     (\<forall>t \<in> set (shown_titles ud).
        \<exists>p \<in> set (poems env).
          Some (poem_author_id p) = dialog_author_id ud \<and> poem_title p = t
          \<and> poem_reply (poem_title p) (poem_text p) \<in> set sent)"

text \<open>What a turn may do to the recorded titles: keep them, empty them, or record the title
  of a poem of the author of the dialogue whose text is the reply of the turn, after the
  titles recorded before or as the only one.\<close>

definition records_delivery :: "env \<Rightarrow> user_data \<Rightarrow> outcome \<Rightarrow> bool" where
  "records_delivery env ud out \<longleftrightarrow>
     dialog_author_id (data out) = dialog_author_id ud
     \<and> (shown_titles (data out) = shown_titles ud
        \<or> shown_titles (data out) = []
        \<or> (\<exists>p \<in> set (poems env).
              Some (poem_author_id p) = dialog_author_id ud
              \<and> replies out = [poem_reply (poem_title p) (poem_text p)]
              \<and> (shown_titles (data out) = shown_titles ud @ [poem_title p]
                   \<or> shown_titles (data out) = [poem_title p])))"

section \<open>Facts about the strings and the examples\<close>

lemmas word_defs = w_privet_def w_zdravstvuy_def w_zdravstvuyte_def w_menya_zovut_def w_menya_def
  w_net_def w_nea_def w_ne_khochu_def w_ne_nado_def w_rasskazhi_def w_davay_def w_prochitay_def
  w_da_def w_khochu_def w_konechno_def w_aga_def w_eshchyo_def w_eshche_def w_stikh_def
  w_khvatit_def w_dostatochno_def

lemmas string_defs = strip_def strip_chars_def contains_def str_split_def str_replace_def
  isspace_def tokenize_def separators_def name_strip_chars_def

lemmas example_defs = example_env_def example_author_def example_data_def text_message_def
  basic_lower_def lower_code_point_def get_author_def poem_rows_def text_or_empty_def

lemma strip_blank:
  assumes "list_all isspace s"
  shows "strip s = []"
  using assms by (auto simp add: strip_def list_all_iff dest: set_dropWhileD)

lemma handle_in_dialog:
  "in_dialog env ud aid author \<Longrightarrow>
   handle_dialog_message env r ud (Some msg) = dialog_turn env r aid author ud (text_or_empty msg)"
  by (simp add: in_dialog_def handle_dialog_message_def)

lemma example_in_dialog: "in_dialog example_env (example_data st used) 1 example_author"
  by (simp add: in_dialog_def example_data_def example_env_def get_author_def example_author_def)

lemma example_data_simps:
  "dialog_stage (example_data st used) = Some st"
  "poems_used (example_data st used) = Some used"
  "dialog_author_id (example_data st used) = Some 1"
  "(example_data st used)\<lparr>dialog_stage := Some st'\<rparr> = example_data st' used"
  "(example_data st used)\<lparr>poems_used := Some used'\<rparr> = example_data st used'"
  by (simp_all add: example_data_def)

lemma greeting_tokens:
  "t \<in> {w_privet, w_zdravstvuy, w_zdravstvuyte} \<Longrightarrow> tokenize t = {t}"
  by (auto simp add: word_defs string_defs)

lemma greeting_no_decline:
  assumes "t \<in> {w_privet, w_zdravstvuy, w_zdravstvuyte}"
  shows "tokenize t \<inter> {w_net, w_nea} = {}" "\<not> contains t w_ne_khochu" "\<not> contains t w_ne_nado"
    "tokenize t \<inter> {w_net, w_khvatit, w_dostatochno} = {}"
  using assms by (auto simp add: word_defs string_defs)

text \<open>
  C7. In the stage \<^verbatim>\<open>ask_name\<close>, a message whose text is empty or only whitespace is answered
  with the request to repeat the name, and the user data (the stage and the stored name
  among them) stay as they were.
\<close>

theorem C7_blank_name_is_reprompted:
  assumes "in_dialog env ud aid author"
    and "dialog_stage ud = Some Ask_name"
    and "list_all isspace (text_or_empty msg)"
  shows "handle_dialog_message env r ud (Some msg) =
           Inr \<lparr>calls = [Get_author aid], replies = [msg_name_repeat], data = ud\<rparr>"
  using assms
  by (simp add: handle_in_dialog dialog_turn_def stage_rules_def ask_name_def strip_blank)

theorem C7_witness:
  "handle_dialog_message example_env 0 (example_data Ask_name []) (text_message [32, 32, 32]) =
     Inr \<lparr>calls = [Get_author 1], replies = [msg_name_repeat], data = example_data Ask_name []\<rparr>"
proof -
  have a: "dialog_stage (example_data Ask_name []) = Some Ask_name"
    by (simp add: example_data_def)
  have b: "list_all isspace (text_or_empty \<lparr>message_text = Some [32, 32, 32]\<rparr>)"
    by (simp add: text_or_empty_def isspace_def)
  show ?thesis
    using C7_blank_name_is_reprompted [OF example_in_dialog a b] by (simp add: text_message_def)
qed

text \<open>
  C10. In the stage \<^verbatim>\<open>offer_poem\<close>, a message that is both a decline and an affirmation is
  treated as a decline: the acknowledgement is sent, no random poem is asked for, and the
  user data, the stage among them, stay as they were.
\<close>

theorem C10_decline_before_affirmation:
  assumes "in_dialog env ud aid author"
    and "dialog_stage ud = Some Offer_poem"
    and "text_lower = lower env (text_or_empty msg)"
    and decline: "tokenize text_lower \<inter> {w_net, w_nea} \<noteq> {} \<or> contains text_lower w_ne_khochu
           \<or> contains text_lower w_ne_nado"
    and affirm: "list_ex (\<lambda>phrase. contains text_lower phrase) [w_rasskazhi, w_davay, w_prochitay]
           \<or> tokenize text_lower \<inter> {w_da, w_khochu, w_konechno, w_aga} \<noteq> {}"
  shows "handle_dialog_message env r ud (Some msg) =
           Inr \<lparr>calls = [Get_author aid], replies = [msg_decline_offer], data = ud\<rparr>"
proof -
  have "text_lower \<notin> {w_privet, w_zdravstvuy, w_zdravstvuyte}"
    using decline greeting_no_decline(1-3) [of text_lower] by blast
  then show ?thesis
    using assms(1-3) decline
    by (simp add: handle_in_dialog dialog_turn_def stage_rules_def offer_poem_def)
qed

theorem C10_witness:
  "handle_dialog_message example_env 0 (example_data Offer_poem [])
     (text_message [1085, 1077, 1090, 44, 32, 1093, 1086, 1095, 1091]) =
     Inr \<lparr>calls = [Get_author 1], replies = [msg_decline_offer],
          data = example_data Offer_poem []\<rparr>"
proof -
  let ?t = "[1085, 1077, 1090, 44, 32, 1093, 1086, 1095, 1091] :: ustr"
  have a: "dialog_stage (example_data Offer_poem []) = Some Offer_poem"
    by (simp add: example_data_def)
  have b: "?t = lower example_env (text_or_empty \<lparr>message_text = Some ?t\<rparr>)"
    by (simp add: example_defs)
  have tok: "tokenize ?t = {w_net, w_khochu}"
    by (simp add: word_defs string_defs)
  have c: "tokenize ?t \<inter> {w_net, w_nea} \<noteq> {} \<or> contains ?t w_ne_khochu \<or> contains ?t w_ne_nado"
    unfolding tok by simp
  have d: "list_ex (\<lambda>phrase. contains ?t phrase) [w_rasskazhi, w_davay, w_prochitay]
           \<or> tokenize ?t \<inter> {w_da, w_khochu, w_konechno, w_aga} \<noteq> {}"
    unfolding tok by simp
  show ?thesis
    using C10_decline_before_affirmation [OF example_in_dialog a b c d]
    by (simp add: text_message_def)
qed

text \<open>
  C9. A message whose lowercased text is not one of the three greeting words is not
  intercepted as a greeting: the turn is what the rules of the stages and the lookups make
  of it.
\<close>

theorem C9_greeting_needs_exact_match:
  assumes "in_dialog env ud aid author"
    and "lower env (text_or_empty msg) \<notin> {w_privet, w_zdravstvuy, w_zdravstvuyte}"
  shows "handle_dialog_message env r ud (Some msg) =
           stage_rules env r [Get_author aid] aid author ud (text_or_empty msg)
             (lower env (text_or_empty msg))"
  using assms by (simp add: handle_in_dialog dialog_turn_def)

text \<open>
  C3 (as amended). Outside the stage \<^verbatim>\<open>ask_name\<close>, a message whose lowercased text is one of
  the three greeting words is answered with the greeting and the question for the name,
  and the stage becomes \<^verbatim>\<open>ask_name\<close>. The list of used poems is kept; it is set to the empty
  list only where the key was missing (\<^verbatim>\<open>setdefault\<close>).
\<close>

theorem C3_greeting_restarts_name_capture:
  assumes "in_dialog env ud aid author"
    and "lower env (text_or_empty msg) \<in> {w_privet, w_zdravstvuy, w_zdravstvuyte}"
    and "dialog_stage ud \<noteq> Some Ask_name"
  shows "handle_dialog_message env r ud (Some msg) =
           Inr \<lparr>calls = [Get_author aid], replies = [msg_greeting],
                data = ud\<lparr>dialog_stage := Some Ask_name,
                           poems_used := Some (case poems_used ud of None \<Rightarrow> [] | Some l \<Rightarrow> l)\<rparr>\<rparr>"
  using assms by (simp add: handle_in_dialog dialog_turn_def)

text \<open>The claim as stated fails: after a greeting the title \<^verbatim>\<open>A\<close> is still in the list of
  used poems.\<close>

theorem C3_counterexample:
  "handle_dialog_message example_env 0 (example_data After_poem [[65]]) (text_message w_privet) =
     Inr \<lparr>calls = [Get_author 1], replies = [msg_greeting],
          data = \<lparr>dialog_author_id = Some 1, dialog_author_name = Some (author_name example_author),
                  dialog_stage = Some Ask_name, poems_used = Some [[65]], user_name = None\<rparr>\<rparr>"
  by (simp add: handle_dialog_message_def dialog_turn_def example_defs word_defs)

theorem C3_witness:
  "handle_dialog_message example_env 0 (example_data After_poem [[65]])
     (text_message [1055, 1088, 1080, 1074, 1077, 1090]) =
     Inr \<lparr>calls = [Get_author 1], replies = [msg_greeting],
          data = example_data Ask_name [[65]]\<rparr>"
proof -
  have a: "lower example_env (text_or_empty \<lparr>message_text = Some [1055, 1088, 1080, 1074, 1077, 1090]\<rparr>)
             \<in> {w_privet, w_zdravstvuy, w_zdravstvuyte}"
    by (simp add: example_defs word_defs)
  have b: "dialog_stage (example_data After_poem [[65]]) \<noteq> Some Ask_name"
    by (simp add: example_data_def)
  show ?thesis
    using C3_greeting_restarts_name_capture [OF example_in_dialog a b]
    by (simp add: text_message_def example_data_def)
qed

theorem C9_witness:
  "handle_dialog_message example_env 0 (example_data After_poem [])
     (text_message [1087, 1088, 1080, 1074, 1077, 1090, 33]) =
     Inr \<lparr>calls = [Get_author 1,
                   Find_poem_text 1 [1087, 1088, 1080, 1074, 1077, 1090, 33],
                   Find_character_insight 1 [1087, 1088, 1080, 1074, 1077, 1090, 33],
                   Find_faq_answer 1 [1087, 1088, 1080, 1074, 1077, 1090, 33],
                   Get_author_works 1,
                   Generate_reply example_author [] [1087, 1088, 1080, 1074, 1077, 1090, 33]],
          replies = [[111, 107]],
          data = example_data After_poem []\<rparr>"
proof -
  let ?t = "[1087, 1088, 1080, 1074, 1077, 1090, 33] :: ustr"
  have low: "lower example_env (text_or_empty \<lparr>message_text = Some ?t\<rparr>) = ?t"
    by (simp add: example_defs)
  have a: "lower example_env (text_or_empty \<lparr>message_text = Some ?t\<rparr>)
             \<notin> {w_privet, w_zdravstvuy, w_zdravstvuyte}"
    unfolding low by (simp add: word_defs)
  have tok: "tokenize ?t = {w_privet}"
    by (simp add: word_defs string_defs)
  have rules: "stage_rules example_env 0 [Get_author 1] 1 example_author
                 (example_data After_poem []) ?t ?t =
               Inr \<lparr>calls = [Get_author 1, Find_poem_text 1 ?t, Find_character_insight 1 ?t,
                             Find_faq_answer 1 ?t, Get_author_works 1,
                             Generate_reply example_author [] ?t],
                    replies = [[111, 107]], data = example_data After_poem []\<rparr>"
    unfolding stage_rules_def after_poem_def tok
    by (simp add: resolution_chain_def find_poem_text_def find_character_insight_def
        find_faq_answer_def generate_reply_def truthy_def example_defs word_defs
        strip_def contains_def isspace_def)
  show ?thesis
    using C9_greeting_needs_exact_match [OF example_in_dialog a, of 0]
    unfolding low by (simp add: text_message_def text_or_empty_def rules)
qed

text \<open>
  C6 (as amended). A decline in the stage \<^verbatim>\<open>offer_poem\<close> is acknowledged, no random poem is
  asked for and the user data stay as they were. The same holds for a decline in the
  stage \<^verbatim>\<open>after_poem\<close>, unless the message also asks for one more poem: that request is
  looked at first.
\<close>

theorem C6_decline_keeps_stage:
  assumes "in_dialog env ud aid author"
    and "text_lower = lower env (text_or_empty msg)"
  shows "(dialog_stage ud = Some Offer_poem
            \<and> (tokenize text_lower \<inter> {w_net, w_nea} \<noteq> {} \<or> contains text_lower w_ne_khochu
                 \<or> contains text_lower w_ne_nado)
          \<longrightarrow> handle_dialog_message env r ud (Some msg) =
                Inr \<lparr>calls = [Get_author aid], replies = [msg_decline_offer], data = ud\<rparr>)
       \<and> (dialog_stage ud = Some After_poem
            \<and> (tokenize text_lower \<inter> {w_net, w_khvatit, w_dostatochno} \<noteq> {}
                 \<or> contains text_lower w_ne_nado)
            \<and> \<not> ((contains text_lower w_eshchyo \<or> contains text_lower w_eshche)
                   \<and> (contains text_lower w_rasskazhi \<or> contains text_lower w_prochitay
                        \<or> contains text_lower w_stikh))
          \<longrightarrow> handle_dialog_message env r ud (Some msg) =
                Inr \<lparr>calls = [Get_author aid], replies = [msg_decline_more], data = ud\<rparr>)"
proof (intro conjI impI)
  assume h: "dialog_stage ud = Some Offer_poem
            \<and> (tokenize text_lower \<inter> {w_net, w_nea} \<noteq> {} \<or> contains text_lower w_ne_khochu
                 \<or> contains text_lower w_ne_nado)"
  then have "text_lower \<notin> {w_privet, w_zdravstvuy, w_zdravstvuyte}"
    using greeting_no_decline(1-3) [of text_lower] by blast
  then show "handle_dialog_message env r ud (Some msg) =
                Inr \<lparr>calls = [Get_author aid], replies = [msg_decline_offer], data = ud\<rparr>"
    using assms h by (simp add: handle_in_dialog dialog_turn_def stage_rules_def offer_poem_def)
next
  assume h: "dialog_stage ud = Some After_poem
            \<and> (tokenize text_lower \<inter> {w_net, w_khvatit, w_dostatochno} \<noteq> {}
                 \<or> contains text_lower w_ne_nado)
            \<and> \<not> ((contains text_lower w_eshchyo \<or> contains text_lower w_eshche)
                   \<and> (contains text_lower w_rasskazhi \<or> contains text_lower w_prochitay
                        \<or> contains text_lower w_stikh))"
  then have "text_lower \<notin> {w_privet, w_zdravstvuy, w_zdravstvuyte}"
    using greeting_no_decline(3,4) [of text_lower] by blast
  then show "handle_dialog_message env r ud (Some msg) =
                Inr \<lparr>calls = [Get_author aid], replies = [msg_decline_more], data = ud\<rparr>"
    using assms h
    by (auto simp add: handle_in_dialog dialog_turn_def stage_rules_def after_poem_def Let_def)
qed

text \<open>The claim as stated fails in the stage \<^verbatim>\<open>after_poem\<close>: the message
  \<^verbatim>\<open>net, eshchyo stikh\<close> has the token \<^verbatim>\<open>net\<close>, and a random poem is sent.\<close>

theorem C6_counterexample:
  "tokenize (lower example_env [1085, 1077, 1090, 44, 32, 1077, 1097, 1105, 32, 1089, 1090, 1080, 1093])
     \<inter> {w_net, w_khvatit, w_dostatochno} \<noteq> {}
   \<and> handle_dialog_message example_env 0 (example_data After_poem [])
       (text_message [1085, 1077, 1090, 44, 32, 1077, 1097, 1105, 32, 1089, 1090, 1080, 1093]) =
     Inr \<lparr>calls = [Get_author 1, Get_random_poem 1 (Some {})],
          replies = [[65, 10, 10, 120]],
          data = example_data After_poem [[65]]\<rparr>"
proof -
  let ?t = "[1085, 1077, 1090, 44, 32, 1077, 1097, 1105, 32, 1089, 1090, 1080, 1093] :: ustr"
  have low: "lower example_env ?t = ?t"
    by (simp add: example_defs)
  have tok: "tokenize ?t = {w_net, w_eshchyo, w_stikh}"
    by (simp add: word_defs string_defs)
  have more: "contains ?t w_eshchyo" "contains ?t w_stikh"
    by (simp_all add: word_defs contains_def)
  have pick: "send_random_poem example_env 0 example_author (example_data After_poem []) =
                (True, \<lparr>calls = [Get_random_poem 1 (Some {})], replies = [[65, 10, 10, 120]],
                        data = example_data After_poem [[65]]\<rparr>)"
    by (simp add: send_random_poem_def get_random_poem_def poem_reply_def example_env_def
        example_author_def poem_rows_def example_data_simps)
  have "handle_dialog_message example_env 0 (example_data After_poem []) (text_message ?t) =
          dialog_turn example_env 0 1 example_author (example_data After_poem []) ?t"
    by (simp add: text_message_def handle_in_dialog [OF example_in_dialog] text_or_empty_def)
  also have "\<dots> = Inr \<lparr>calls = [Get_author 1, Get_random_poem 1 (Some {})],
          replies = [[65, 10, 10, 120]], data = example_data After_poem [[65]]\<rparr>"
    unfolding dialog_turn_def low stage_rules_def after_poem_def
    by (simp add: more pick w_privet_def w_zdravstvuy_def w_zdravstvuyte_def example_data_simps Let_def)
  finally show ?thesis
    unfolding low tok by simp
qed

theorem C6_witness:
  "handle_dialog_message example_env 0 (example_data Offer_poem []) (text_message [1085, 1077, 1090]) =
     Inr \<lparr>calls = [Get_author 1], replies = [msg_decline_offer], data = example_data Offer_poem []\<rparr>
   \<and> handle_dialog_message example_env 0 (example_data After_poem [[65]])
       (text_message [1085, 1077, 1090, 44, 32, 1093, 1074, 1072, 1090, 1080, 1090]) =
     Inr \<lparr>calls = [Get_author 1], replies = [msg_decline_more], data = example_data After_poem [[65]]\<rparr>"
proof -
  let ?s = "[1085, 1077, 1090] :: ustr"
  let ?t = "[1085, 1077, 1090, 44, 32, 1093, 1074, 1072, 1090, 1080, 1090] :: ustr"
  have ls: "?s = lower example_env (text_or_empty \<lparr>message_text = Some ?s\<rparr>)"
    and lt: "?t = lower example_env (text_or_empty \<lparr>message_text = Some ?t\<rparr>)"
    by (simp_all add: example_defs)
  have toks: "tokenize ?s = {w_net}" and tokt: "tokenize ?t = {w_net, w_khvatit}"
    by (simp_all add: word_defs string_defs)
  have more: "\<not> contains ?t w_eshchyo" "\<not> contains ?t w_eshche"
    by (simp_all add: word_defs contains_def)
  have st: "dialog_stage (example_data Offer_poem []) = Some Offer_poem"
    "dialog_stage (example_data After_poem [[65]]) = Some After_poem"
    by (simp_all add: example_data_def)
  show ?thesis
    using C6_decline_keeps_stage [OF example_in_dialog [of Offer_poem "[]"] ls, of 0]
      C6_decline_keeps_stage [OF example_in_dialog [of After_poem "[[65]]"] lt, of 0]
    unfolding toks tokt by (simp add: text_message_def st more)
qed


lemma find_poem_text_nonempty: "find_poem_text env aid t = Some p \<Longrightarrow> p \<noteq> []"
  by (auto simp add: find_poem_text_def poem_reply_def Let_def)

lemma find_character_insight_nonempty: "find_character_insight env aid t = Some p \<Longrightarrow> p \<noteq> []"
  by (auto simp add: find_character_insight_def Let_def)

lemma handle_falls_through:
  assumes "in_dialog env ud aid author"
    and "falls_through env r aid author ud (lower env (text_or_empty msg))"
  shows "handle_dialog_message env r ud (Some msg) =
           Inr (resolution_chain env [Get_author aid] aid author ud (text_or_empty msg)
                  (lower env (text_or_empty msg)))"
proof -
  let ?tl = "lower env (text_or_empty msg)"
  have g: "?tl \<notin> {w_privet, w_zdravstvuy, w_zdravstvuyte}"
    and s: "dialog_stage ud \<noteq> Some Ask_name"
    and o: "dialog_stage ud = Some Offer_poem \<longrightarrow>
          offer_poem env r [Get_author aid] author ud ?tl = None"
    and a: "dialog_stage ud = Some After_poem \<longrightarrow>
          after_poem env r [Get_author aid] author ud ?tl = None"
    using assms(2) unfolding falls_through_def by blast+
  have "handle_dialog_message env r ud (Some msg) =
          stage_rules env r [Get_author aid] aid author ud (text_or_empty msg) ?tl"
    using assms(1) g by (simp add: handle_in_dialog dialog_turn_def)
  also have "\<dots> = Inr (resolution_chain env [Get_author aid] aid author ud (text_or_empty msg) ?tl)"
    using s o a by (auto simp add: stage_rules_def Let_def)
  finally show ?thesis .
qed

text \<open>
  C1 (as amended). When no rule of the state machine answers the turn, the handler returns
  without changing the user data, and it has tried, on the lowercased message and in this
  order: the poem lookup, the request for the list of poems (\<^verbatim>\<open>rasskazhi\<close> and \<^verbatim>\<open>stikh\<close>
  both occur), the character lookup, and the FAQ lookup, which counts only with a
  non-empty answer. The first of them that answers gives the reply and the later ones are
  not called. When none answers, the fallback adapter is called with the message as it was
  sent, and its text is the reply.
\<close>

theorem C1_resolution_order:
  assumes dlg: "in_dialog env ud aid author"
    and tl: "text_lower = lower env (text_or_empty msg)"
    and ft: "falls_through env r aid author ud text_lower"
    and cs: "cs = [Get_author aid, Find_poem_text aid text_lower]"
  shows "\<exists>out. handle_dialog_message env r ud (Some msg) = Inr out \<and> data out = ud
     \<and> (\<forall>p. find_poem_text env aid text_lower = Some p \<longrightarrow>
            calls out = cs \<and> replies out = [p])
     \<and> (find_poem_text env aid text_lower = None
          \<and> contains text_lower w_rasskazhi \<and> contains text_lower w_stikh \<longrightarrow>
            calls out = cs @ [Get_poem_titles aid]
            \<and> replies out = [msg_list_pre @ join [44, 32] (get_poem_titles env aid) @ msg_list_post])
     \<and> (\<forall>c. find_poem_text env aid text_lower = None
              \<and> \<not> (contains text_lower w_rasskazhi \<and> contains text_lower w_stikh)
              \<and> find_character_insight env aid text_lower = Some c \<longrightarrow>
            calls out = cs @ [Find_character_insight aid text_lower] \<and> replies out = [c])
     \<and> (\<forall>a. find_poem_text env aid text_lower = None
              \<and> \<not> (contains text_lower w_rasskazhi \<and> contains text_lower w_stikh)
              \<and> find_character_insight env aid text_lower = None
              \<and> find_faq_answer env aid text_lower = Some a \<and> a \<noteq> [] \<longrightarrow>
            calls out = cs @ [Find_character_insight aid text_lower, Find_faq_answer aid text_lower]
            \<and> replies out = [a])
     \<and> (find_poem_text env aid text_lower = None
          \<and> \<not> (contains text_lower w_rasskazhi \<and> contains text_lower w_stikh)
          \<and> find_character_insight env aid text_lower = None
          \<and> find_faq_answer env aid text_lower \<in> {None, Some []} \<longrightarrow>
            calls out = cs @ [Find_character_insight aid text_lower, Find_faq_answer aid text_lower,
                              Get_author_works aid,
                              Generate_reply author (author_works env aid) (text_or_empty msg)]
            \<and> replies out = [generate_reply env author (author_works env aid) (text_or_empty msg)])"
proof -
  let ?out = "resolution_chain env [Get_author aid] aid author ud (text_or_empty msg) text_lower"
  have h: "handle_dialog_message env r ud (Some msg) = Inr ?out"
    using handle_falls_through [OF dlg] ft tl by simp
  have d: "data ?out = ud"
    by (simp add: resolution_chain_def Let_def split: option.splits)
  have 1: "\<forall>p. find_poem_text env aid text_lower = Some p \<longrightarrow>
            calls ?out = cs \<and> replies ?out = [p]"
    using find_poem_text_nonempty [of env aid text_lower]
    by (simp add: resolution_chain_def truthy_def cs)
  have 2: "find_poem_text env aid text_lower = None
          \<and> contains text_lower w_rasskazhi \<and> contains text_lower w_stikh \<longrightarrow>
            calls ?out = cs @ [Get_poem_titles aid]
            \<and> replies ?out = [msg_list_pre @ join [44, 32] (get_poem_titles env aid) @ msg_list_post]"
    by (simp add: resolution_chain_def truthy_def cs)
  have 3: "\<forall>c. find_poem_text env aid text_lower = None
              \<and> \<not> (contains text_lower w_rasskazhi \<and> contains text_lower w_stikh)
              \<and> find_character_insight env aid text_lower = Some c \<longrightarrow>
            calls ?out = cs @ [Find_character_insight aid text_lower] \<and> replies ?out = [c]"
    using find_character_insight_nonempty [of env aid text_lower]
    by (auto simp add: resolution_chain_def truthy_def cs)
  have 4: "\<forall>a. find_poem_text env aid text_lower = None
              \<and> \<not> (contains text_lower w_rasskazhi \<and> contains text_lower w_stikh)
              \<and> find_character_insight env aid text_lower = None
              \<and> find_faq_answer env aid text_lower = Some a \<and> a \<noteq> [] \<longrightarrow>
            calls ?out = cs @ [Find_character_insight aid text_lower, Find_faq_answer aid text_lower]
            \<and> replies ?out = [a]"
    by (auto simp add: resolution_chain_def truthy_def cs)
  have 5: "find_poem_text env aid text_lower = None
          \<and> \<not> (contains text_lower w_rasskazhi \<and> contains text_lower w_stikh)
          \<and> find_character_insight env aid text_lower = None
          \<and> find_faq_answer env aid text_lower \<in> {None, Some []} \<longrightarrow>
            calls ?out = cs @ [Find_character_insight aid text_lower, Find_faq_answer aid text_lower,
                              Get_author_works aid,
                              Generate_reply author (author_works env aid) (text_or_empty msg)]
            \<and> replies ?out = [generate_reply env author (author_works env aid) (text_or_empty msg)]"
    by (auto simp add: resolution_chain_def truthy_def cs Let_def)
  show ?thesis
    using h d 1 2 3 4 5 by blast
qed

lemma outcome_eqI:
  "calls out = c \<Longrightarrow> replies out = rs \<Longrightarrow> data out = d \<Longrightarrow>
   out = \<lparr>calls = c, replies = rs, data = d\<rparr>"
  by (cases out) simp

theorem C1_witness:
  "handle_dialog_message example_env 0 (example_data After_poem [])
     (text_message [1044, 1091, 1101, 1083, 1100]) =
     Inr \<lparr>calls = [Get_author 1,
                   Find_poem_text 1 [1076, 1091, 1101, 1083, 1100],
                   Find_character_insight 1 [1076, 1091, 1101, 1083, 1100],
                   Find_faq_answer 1 [1076, 1091, 1101, 1083, 1100]],
          replies = [[97]],
          data = example_data After_poem []\<rparr>"
proof -
  let ?raw = "[1044, 1091, 1101, 1083, 1100] :: ustr"
  let ?t = "[1076, 1091, 1101, 1083, 1100] :: ustr"
  let ?ud = "example_data After_poem []"
  let ?msg = "\<lparr>message_text = Some ?raw\<rparr>"
  have low: "?t = lower example_env (text_or_empty ?msg)"
    by (simp add: example_defs)
  have tok: "tokenize ?t = {?t}"
    by (simp add: string_defs)
  have ft: "falls_through example_env 0 1 example_author ?ud ?t"
    unfolding falls_through_def after_poem_def tok
    by (simp add: example_data_simps word_defs contains_def)
  have poem: "find_poem_text example_env 1 ?t = None"
    and char: "find_character_insight example_env 1 ?t = None"
    and faq: "find_faq_answer example_env 1 ?t = Some [97]"
    and list: "\<not> (contains ?t w_rasskazhi \<and> contains ?t w_stikh)"
    by (simp_all add: find_poem_text_def find_character_insight_def find_faq_answer_def
        example_defs contains_def word_defs)
  obtain out where h: "handle_dialog_message example_env 0 ?ud (Some ?msg) = Inr out"
    and d: "data out = ?ud"
    and c: "calls out = [Get_author 1, Find_poem_text 1 ?t]
              @ [Find_character_insight 1 ?t, Find_faq_answer 1 ?t]"
    and r: "replies out = [[97]]"
    using C1_resolution_order [OF example_in_dialog low ft refl] poem char faq list by auto
  have "out = \<lparr>calls = [Get_author 1, Find_poem_text 1 ?t, Find_character_insight 1 ?t,
                         Find_faq_answer 1 ?t],
                replies = [[97]], data = ?ud\<rparr>"
    using c r d by (intro outcome_eqI) simp_all
  then show ?thesis
    using h by (simp add: text_message_def)
qed

text \<open>The claim as stated fails: the FAQ lookup finds an entry for the message, its stored
  answer is empty, and the fallback adapter is called.\<close>

theorem C1_counterexample:
  "find_faq_answer
     (example_env\<lparr>faq := [\<lparr>faq_author_id = 1, faq_question = [113], faq_answer = [],
                            faq_keywords = [[1076, 1091, 1101, 1083]]\<rparr>]\<rparr>)
     1 [1076, 1091, 1101, 1083, 1100] = Some []
   \<and> handle_dialog_message
       (example_env\<lparr>faq := [\<lparr>faq_author_id = 1, faq_question = [113], faq_answer = [],
                              faq_keywords = [[1076, 1091, 1101, 1083]]\<rparr>]\<rparr>)
       0 (example_data After_poem []) (text_message [1076, 1091, 1101, 1083, 1100]) =
     Inr \<lparr>calls = [Get_author 1,
                   Find_poem_text 1 [1076, 1091, 1101, 1083, 1100],
                   Find_character_insight 1 [1076, 1091, 1101, 1083, 1100],
                   Find_faq_answer 1 [1076, 1091, 1101, 1083, 1100],
                   Get_author_works 1,
                   Generate_reply example_author [] [1076, 1091, 1101, 1083, 1100]],
          replies = [[111, 107]],
          data = example_data After_poem []\<rparr>"
proof -
  let ?t = "[1076, 1091, 1101, 1083, 1100] :: ustr"
  let ?env = "example_env\<lparr>faq := [\<lparr>faq_author_id = 1, faq_question = [113], faq_answer = [],
                            faq_keywords = [[1076, 1091, 1101, 1083]]\<rparr>]\<rparr>"
  let ?ud = "example_data After_poem []"
  have dlg: "in_dialog ?env ?ud 1 example_author"
    by (simp add: in_dialog_def example_defs)
  have low: "lower ?env (text_or_empty \<lparr>message_text = Some ?t\<rparr>) = ?t"
    by (simp add: example_defs)
  have tok: "tokenize ?t = {?t}"
    by (simp add: string_defs)
  have ft: "falls_through ?env 0 1 example_author ?ud ?t"
    unfolding falls_through_def after_poem_def tok
    by (simp add: example_data_simps word_defs contains_def)
  have faq: "find_faq_answer ?env 1 ?t = Some []"
    by (simp add: find_faq_answer_def example_defs contains_def)
  have chain: "resolution_chain ?env [Get_author 1] 1 example_author ?ud ?t ?t =
     \<lparr>calls = [Get_author 1, Find_poem_text 1 ?t, Find_character_insight 1 ?t,
               Find_faq_answer 1 ?t, Get_author_works 1, Generate_reply example_author [] ?t],
      replies = [[111, 107]], data = ?ud\<rparr>"
    unfolding resolution_chain_def faq
    by (simp add: find_poem_text_def find_character_insight_def truthy_def generate_reply_def
        example_defs contains_def word_defs strip_def isspace_def)
  show ?thesis
    using handle_falls_through [OF dlg, of 0 "\<lparr>message_text = Some ?t\<rparr>"] ft
    unfolding low by (simp add: faq chain text_message_def text_or_empty_def)
qed

lemma api_error_not_empty_output: "msg_api_error @ s \<noteq> msg_empty_output"
  by (simp add: msg_api_error_def msg_empty_output_def)

lemma generate_reply_api_error:
  "create_response env author works (strip m) = APIError code \<Longrightarrow>
   generate_reply env author works m = msg_api_error @ error_code_suffix code"
  by (simp add: generate_reply_def error_code_suffix_def)

lemma generate_reply_blank:
  "create_response env author works (strip m) = Response out \<Longrightarrow>
   strip (case out of None \<Rightarrow> [] | Some t \<Rightarrow> t) = [] \<Longrightarrow>
   generate_reply env author works m = msg_empty_output"
  by (simp add: generate_reply_def)

lemma chain_no_scripted_answer:
  "no_scripted_answer env aid t \<Longrightarrow>
   resolution_chain env cs aid author ud text t =
     \<lparr>calls = cs @ [Find_poem_text aid t, Find_character_insight aid t, Find_faq_answer aid t,
                    Get_author_works aid, Generate_reply author (author_works env aid) text],
      replies = [generate_reply env author (author_works env aid) text], data = ud\<rparr>"
  by (auto simp add: no_scripted_answer_def resolution_chain_def Let_def)

text \<open>
  C5 (as amended). \<^verbatim>\<open>generate_reply\<close> answers an \<^verbatim>\<open>APIError\<close> with the apology text, followed
  by the error code in brackets when the error has a non-empty one, and a response without
  text with the second apology text, which differs from the first. A turn that reaches the
  fallback adapter and meets an \<^verbatim>\<open>APIError\<close> returns with that reply and leaves the user
  data, the stage among them, as they were.
\<close>

theorem C5_fallback_degraded_replies:
  "(create_response env author works (strip m) = APIError code \<longrightarrow>
      generate_reply env author works m = msg_api_error @ error_code_suffix code)
   \<and> (create_response env author works (strip m) = Response out
        \<and> strip (case out of None \<Rightarrow> [] | Some t \<Rightarrow> t) = [] \<longrightarrow>
      generate_reply env author works m = msg_empty_output)
   \<and> msg_api_error @ error_code_suffix code \<noteq> msg_empty_output
   \<and> (in_dialog env ud aid author
        \<and> falls_through env r aid author ud (lower env (text_or_empty msg))
        \<and> no_scripted_answer env aid (lower env (text_or_empty msg))
        \<and> create_response env author (author_works env aid) (strip (text_or_empty msg)) = APIError code
      \<longrightarrow> handle_dialog_message env r ud (Some msg) =
            Inr \<lparr>calls = [Get_author aid,
                          Find_poem_text aid (lower env (text_or_empty msg)),
                          Find_character_insight aid (lower env (text_or_empty msg)),
                          Find_faq_answer aid (lower env (text_or_empty msg)),
                          Get_author_works aid,
                          Generate_reply author (author_works env aid) (text_or_empty msg)],
                 replies = [msg_api_error @ error_code_suffix code],
                 data = ud\<rparr>)"
proof (intro conjI impI)
  show "msg_api_error @ error_code_suffix code \<noteq> msg_empty_output"
    by (rule api_error_not_empty_output)
next
  assume "create_response env author works (strip m) = APIError code"
  then show "generate_reply env author works m = msg_api_error @ error_code_suffix code"
    by (rule generate_reply_api_error)
next
  assume "create_response env author works (strip m) = Response out
        \<and> strip (case out of None \<Rightarrow> [] | Some t \<Rightarrow> t) = []"
  then show "generate_reply env author works m = msg_empty_output"
    using generate_reply_blank by blast
next
  assume h: "in_dialog env ud aid author
        \<and> falls_through env r aid author ud (lower env (text_or_empty msg))
        \<and> no_scripted_answer env aid (lower env (text_or_empty msg))
        \<and> create_response env author (author_works env aid) (strip (text_or_empty msg)) = APIError code"
  then show "handle_dialog_message env r ud (Some msg) =
            Inr \<lparr>calls = [Get_author aid,
                          Find_poem_text aid (lower env (text_or_empty msg)),
                          Find_character_insight aid (lower env (text_or_empty msg)),
                          Find_faq_answer aid (lower env (text_or_empty msg)),
                          Get_author_works aid,
                          Generate_reply author (author_works env aid) (text_or_empty msg)],
                 replies = [msg_api_error @ error_code_suffix code],
                 data = ud\<rparr>"
    by (simp add: handle_falls_through [of env ud aid author r msg]
        chain_no_scripted_answer generate_reply_api_error)
qed

text \<open>The claim as stated fails: the reply to an upstream error is not one fixed string,
  it differs with the error code.\<close>

theorem C5_counterexample:
  "generate_reply (example_env\<lparr>create_response := (\<lambda>author works prompt. APIError None)\<rparr>)
     example_author [] [104, 105] = msg_api_error
   \<and> generate_reply
       (example_env\<lparr>create_response := (\<lambda>author works prompt. APIError (Some [52, 50, 57]))\<rparr>)
       example_author [] [104, 105] = msg_api_error @ msg_code_pre @ [52, 50, 57] @ msg_code_post
   \<and> generate_reply (example_env\<lparr>create_response := (\<lambda>author works prompt. APIError None)\<rparr>)
       example_author [] [104, 105]
     \<noteq> generate_reply
         (example_env\<lparr>create_response := (\<lambda>author works prompt. APIError (Some [52, 50, 57]))\<rparr>)
         example_author [] [104, 105]"
  by (simp add: generate_reply_def msg_code_pre_def)

theorem C5_witness:
  "handle_dialog_message
     (example_env\<lparr>create_response := (\<lambda>author works prompt. APIError (Some [52, 50, 57]))\<rparr>)
     0 (example_data After_poem []) (text_message [1087, 1088, 1080, 1074, 1077, 1090, 33]) =
     Inr \<lparr>calls = [Get_author 1,
                   Find_poem_text 1 [1087, 1088, 1080, 1074, 1077, 1090, 33],
                   Find_character_insight 1 [1087, 1088, 1080, 1074, 1077, 1090, 33],
                   Find_faq_answer 1 [1087, 1088, 1080, 1074, 1077, 1090, 33],
                   Get_author_works 1,
                   Generate_reply example_author [] [1087, 1088, 1080, 1074, 1077, 1090, 33]],
          replies = [msg_api_error @ msg_code_pre @ [52, 50, 57] @ msg_code_post],
          data = example_data After_poem []\<rparr>
   \<and> generate_reply (example_env\<lparr>create_response := (\<lambda>author works prompt. Response (Some [32]))\<rparr>)
       example_author [] [104, 105] = msg_empty_output"
proof -
  let ?t = "[1087, 1088, 1080, 1074, 1077, 1090, 33] :: ustr"
  let ?env = "example_env\<lparr>create_response := (\<lambda>author works prompt. APIError (Some [52, 50, 57]))\<rparr>"
  let ?env' = "example_env\<lparr>create_response := (\<lambda>author works prompt. Response (Some [32]))\<rparr>"
  let ?ud = "example_data After_poem []"
  let ?msg = "\<lparr>message_text = Some ?t\<rparr>"
  have dlg: "in_dialog ?env ?ud 1 example_author"
    by (simp add: in_dialog_def example_defs)
  have low: "lower ?env (text_or_empty ?msg) = ?t"
    by (simp add: example_defs)
  have tok: "tokenize ?t = {w_privet}"
    by (simp add: word_defs string_defs)
  have ft: "falls_through ?env 0 1 example_author ?ud ?t"
    unfolding falls_through_def after_poem_def tok
    by (simp add: example_data_simps word_defs contains_def)
  have none: "no_scripted_answer ?env 1 ?t"
    by (simp add: no_scripted_answer_def find_poem_text_def find_character_insight_def
        find_faq_answer_def truthy_def example_defs contains_def word_defs)
  have err: "create_response ?env example_author (author_works ?env 1) (strip (text_or_empty ?msg))
               = APIError (Some [52, 50, 57])"
    by (simp add: example_env_def)
  have blank: "create_response ?env' example_author [] (strip [104, 105]) = Response (Some [32])
                 \<and> strip (case Some [32] of None \<Rightarrow> [] | Some t \<Rightarrow> t) = []"
    by (simp add: example_env_def strip_def isspace_def)
  have works: "author_works ?env 1 = []"
    by (simp add: example_env_def)
  have suffix: "error_code_suffix (Some [52, 50, 57]) = msg_code_pre @ [52, 50, 57] @ msg_code_post"
    by (simp add: error_code_suffix_def)
  show ?thesis
    using C5_fallback_degraded_replies
            [where env = ?env and ud = ?ud and aid = 1 and author = example_author and r = 0
               and msg = ?msg and code = "Some [52, 50, 57]"]
          C5_fallback_degraded_replies
            [where env = ?env' and author = example_author and works = "[]" and m = "[104, 105]"
               and out = "Some [32]"]
          dlg ft none err blank
    unfolding low works suffix by (simp add: text_message_def text_or_empty_def)
qed


lemma split_words_skip_space: "str_split (dropWhile isspace s) = str_split s"
  by (induction s) (simp_all add: str_split_def)

lemma split_words_word:
  "cur \<noteq> [] \<or> (r \<noteq> [] \<and> \<not> isspace (hd r)) \<Longrightarrow>
   split_words cur r =
     (cur @ takeWhile (\<lambda>c. \<not> isspace c) r) # split_words [] (dropWhile (\<lambda>c. \<not> isspace c) r)"
proof (induction r arbitrary: cur)
  case Nil
  then show ?case by simp
next
  case (Cons c cs)
  show ?case
  proof (cases "isspace c")
    case True
    with Cons.prems show ?thesis by simp
  next
    case False
    with Cons.IH [of "cur @ [c]"] show ?thesis by simp
  qed
qed

lemma str_split_unfold:
  "str_split s =
     (let r = dropWhile isspace s in
      if r = [] then []
      else takeWhile (\<lambda>c. \<not> isspace c) r # str_split (dropWhile (\<lambda>c. \<not> isspace c) r))"
proof (cases "dropWhile isspace s = []")
  case True
  have "str_split (dropWhile isspace s) = []"
    unfolding True by (simp add: str_split_def)
  then have "str_split s = []"
    by (simp add: split_words_skip_space)
  then show ?thesis
    unfolding Let_def True by simp
next
  case False
  then have "\<not> isspace (hd (dropWhile isspace s))"
    by (rule hd_dropWhile)
  with False have "split_words [] (dropWhile isspace s) =
      ([] @ takeWhile (\<lambda>c. \<not> isspace c) (dropWhile isspace s))
        # split_words [] (dropWhile (\<lambda>c. \<not> isspace c) (dropWhile isspace s))"
    by (intro split_words_word) simp
  then have "str_split (dropWhile isspace s) =
      takeWhile (\<lambda>c. \<not> isspace c) (dropWhile isspace s)
        # str_split (dropWhile (\<lambda>c. \<not> isspace c) (dropWhile isspace s))"
    by (simp add: str_split_def)
  then have "str_split s =
      takeWhile (\<lambda>c. \<not> isspace c) (dropWhile isspace s)
        # str_split (dropWhile (\<lambda>c. \<not> isspace c) (dropWhile isspace s))"
    by (simp add: split_words_skip_space)
  then show ?thesis
    unfolding Let_def using False by (simp del: dropWhile_eq_Nil_conv)
qed

lemma str_split_max_words:
  "take n (str_split_max n s) = take n (str_split s)
   \<and> length (str_split_max n s) = min (Suc n) (length (str_split s))"
proof (induction n arbitrary: s)
  case 0
  show ?case
    by (subst (2) str_split_unfold) (simp add: Let_def)
next
  case (Suc n)
  show ?case
    by (subst str_split_unfold, subst (2) str_split_unfold) (simp add: Let_def Suc.IH)
qed

lemma second_word:
  "(2 \<le> length (str_split_max 2 s)) = (2 \<le> length (str_split s))"
  "2 \<le> length (str_split s) \<Longrightarrow> str_split_max 2 s ! 1 = str_split s ! 1"
proof -
  show "(2 \<le> length (str_split_max 2 s)) = (2 \<le> length (str_split s))"
    using str_split_max_words [of 2 s] by auto
  assume "2 \<le> length (str_split s)"
  have "str_split_max 2 s ! 1 = take 2 (str_split_max 2 s) ! 1"
    by simp
  also have "\<dots> = take 2 (str_split s) ! 1"
    using str_split_max_words [of 2 s] by simp
  finally show "str_split_max 2 s ! 1 = str_split s ! 1"
    by simp
qed

lemma name_candidate_cases:
  assumes "lc = lower env cleaned"
  shows "(\<forall>i. str_find lc w_menya_zovut = Some i \<longrightarrow>
            name_candidate env cleaned = strip (drop (i + length w_menya_zovut) cleaned))
     \<and> (str_find lc w_menya_zovut = None \<and> startswith lc w_menya
          \<and> 2 \<le> length (str_split cleaned) \<longrightarrow>
            name_candidate env cleaned = str_split cleaned ! 1)
     \<and> (str_find lc w_menya_zovut = None
          \<and> \<not> (startswith lc w_menya \<and> 2 \<le> length (str_split cleaned)) \<longrightarrow>
            name_candidate env cleaned = cleaned)"
  using assms second_word [of cleaned] by (auto simp add: name_candidate_def Let_def)

lemma ask_name_captures:
  assumes "strip text \<noteq> []"
    and "str_split (strip_chars name_strip_chars (name_candidate env (strip text))) = name # rest"
  shows "ask_name env cs ud text =
           Inr \<lparr>calls = cs, replies = [msg_hello_pre @ name @ msg_hello_post],
                data = ud\<lparr>user_name := Some name, dialog_stage := Some Offer_poem\<rparr>\<rparr>"
proof -
  have "strip_chars name_strip_chars (name_candidate env (strip text)) \<noteq> []"
    using assms(2) by (auto simp add: str_split_def)
  then show ?thesis
    using assms by (simp add: ask_name_def Let_def)
qed

text \<open>
  What the handler does in the stage \<^verbatim>\<open>ask_name\<close> with a text that is not blank. The
  candidate is: the stripped rest of the trimmed text after the place where \<^verbatim>\<open>menya zovut\<close>
  is found in its lowercased form; else, when the lowercased form starts with \<^verbatim>\<open>menya\<close> and
  the text has two words or more, its second word; else the trimmed text. When the
  candidate, stripped of the surrounding punctuation and spaces, has a first token, that
  token is stored as the name and greeted, and the stage becomes \<^verbatim>\<open>offer_poem\<close>.
\<close>

lemma name_capture_with_token:
  assumes "in_dialog env ud aid author"
    and "dialog_stage ud = Some Ask_name"
    and "cleaned = strip (text_or_empty msg)"
    and "cleaned \<noteq> []"
    and "lc = lower env cleaned"
  shows "(\<forall>i. str_find lc w_menya_zovut = Some i \<longrightarrow>
            name_candidate env cleaned = strip (drop (i + length w_menya_zovut) cleaned))
     \<and> (str_find lc w_menya_zovut = None \<and> startswith lc w_menya
          \<and> 2 \<le> length (str_split cleaned) \<longrightarrow>
            name_candidate env cleaned = str_split cleaned ! 1)
     \<and> (str_find lc w_menya_zovut = None
          \<and> \<not> (startswith lc w_menya \<and> 2 \<le> length (str_split cleaned)) \<longrightarrow>
            name_candidate env cleaned = cleaned)
     \<and> (\<forall>name rest.
           str_split (strip_chars name_strip_chars (name_candidate env cleaned)) = name # rest \<longrightarrow>
           handle_dialog_message env r ud (Some msg) =
             Inr \<lparr>calls = [Get_author aid], replies = [msg_hello_pre @ name @ msg_hello_post],
                  data = ud\<lparr>user_name := Some name, dialog_stage := Some Offer_poem\<rparr>\<rparr>)"
proof -
  have turn: "handle_dialog_message env r ud (Some msg) =
                ask_name env [Get_author aid] ud (text_or_empty msg)"
    using assms(1,2) by (simp add: handle_in_dialog dialog_turn_def stage_rules_def)
  have "\<forall>name rest.
           str_split (strip_chars name_strip_chars (name_candidate env cleaned)) = name # rest \<longrightarrow>
           handle_dialog_message env r ud (Some msg) =
             Inr \<lparr>calls = [Get_author aid], replies = [msg_hello_pre @ name @ msg_hello_post],
                  data = ud\<lparr>user_name := Some name, dialog_stage := Some Offer_poem\<rparr>\<rparr>"
    unfolding turn using assms(3,4) ask_name_captures [of "text_or_empty msg" env] by blast
  then show ?thesis
    using name_candidate_cases [OF assms(5)] by blast
qed

text \<open>The example of the specification: \<^verbatim>\<open>menya zovut Pyotr\<close> gives the name \<^verbatim>\<open>Pyotr\<close> and the
  stage \<^verbatim>\<open>offer_poem\<close>.\<close>

lemma name_capture_example:
  "handle_dialog_message example_env 0 (example_data Ask_name [])
     (text_message [1084, 1077, 1085, 1103, 32, 1079, 1086, 1074, 1091, 1090, 32,
                    1055, 1105, 1090, 1088]) =
     Inr \<lparr>calls = [Get_author 1],
          replies = [msg_hello_pre @ [1055, 1105, 1090, 1088] @ msg_hello_post],
          data = (example_data Offer_poem [])\<lparr>user_name := Some [1055, 1105, 1090, 1088]\<rparr>\<rparr>"
proof -
  let ?t = "[1084, 1077, 1085, 1103, 32, 1079, 1086, 1074, 1091, 1090, 32,
             1055, 1105, 1090, 1088] :: ustr"
  let ?msg = "\<lparr>message_text = Some ?t\<rparr>"
  have st: "dialog_stage (example_data Ask_name []) = Some Ask_name"
    by (simp add: example_data_simps)
  have cl: "?t = strip (text_or_empty ?msg)"
    by (simp add: text_or_empty_def strip_def isspace_def)
  have ne: "?t \<noteq> []"
    by simp
  have fnd: "str_find (lower example_env ?t) w_menya_zovut = Some 0"
    by (simp add: example_defs word_defs)
  have cand: "name_candidate example_env ?t = [1055, 1105, 1090, 1088]"
    using name_capture_with_token [OF example_in_dialog st cl ne refl] fnd
    by (simp add: w_menya_zovut_def strip_def isspace_def)
  have sc: "strip_chars name_strip_chars [1055, 1105, 1090, 1088] = [1055, 1105, 1090, 1088]"
    by (simp add: strip_chars_def name_strip_chars_def)
  have sp: "str_split (strip_chars name_strip_chars [1055, 1105, 1090, 1088])
              = [1055, 1105, 1090, 1088] # []"
    unfolding sc by (simp add: str_split_def isspace_def)
  show ?thesis
    using name_capture_with_token [OF example_in_dialog st cl ne refl, of 0] sp
    unfolding cand by (simp add: text_message_def example_data_def)
qed

text \<open>The message \<^verbatim>\<open>Pyotr, privet\<close>: the handler strips the candidate as a whole and then
  takes its first token, so the name is stored with its comma; the algorithm of the
  specification takes the first token and strips it.\<close>

lemma name_capture_keeps_comma:
  "handle_dialog_message example_env 0 (example_data Ask_name [])
     (text_message [1055, 1105, 1090, 1088, 44, 32, 1087, 1088, 1080, 1074, 1077, 1090]) =
     Inr \<lparr>calls = [Get_author 1],
          replies = [msg_hello_pre @ [1055, 1105, 1090, 1088, 44] @ msg_hello_post],
          data = (example_data Offer_poem [])\<lparr>user_name := Some [1055, 1105, 1090, 1088, 44]\<rparr>\<rparr>
   \<and> spec_captured_name [1055, 1105, 1090, 1088, 44, 32, 1087, 1088, 1080, 1074, 1077, 1090]
       = [1055, 1105, 1090, 1088]"
proof -
  let ?t = "[1055, 1105, 1090, 1088, 44, 32, 1087, 1088, 1080, 1074, 1077, 1090] :: ustr"
  have cl: "strip ?t = ?t"
    by (simp add: strip_def isspace_def)
  have cand: "name_candidate example_env ?t = ?t"
    by (simp add: name_candidate_def example_defs word_defs)
  have sc: "strip_chars name_strip_chars ?t = ?t"
    by (simp add: strip_chars_def name_strip_chars_def)
  have sp: "str_split ?t = [[1055, 1105, 1090, 1088, 44], [1087, 1088, 1080, 1074, 1077, 1090]]"
    by (simp add: str_split_def isspace_def)
  have code: "ask_name example_env [Get_author 1] (example_data Ask_name []) ?t =
     Inr \<lparr>calls = [Get_author 1],
          replies = [msg_hello_pre @ [1055, 1105, 1090, 1088, 44] @ msg_hello_post],
          data = (example_data Offer_poem [])\<lparr>user_name := Some [1055, 1105, 1090, 1088, 44]\<rparr>\<rparr>"
    unfolding ask_name_def cl Let_def cand sc sp by (simp add: example_data_def)
  have turn: "handle_dialog_message example_env 0 (example_data Ask_name []) (text_message ?t) =
     ask_name example_env [Get_author 1] (example_data Ask_name []) ?t"
    by (simp add: text_message_def handle_in_dialog [OF example_in_dialog] dialog_turn_def
        stage_rules_def example_data_simps text_or_empty_def)
  have spec: "spec_captured_name ?t = [1055, 1105, 1090, 1088]"
    by (simp add: spec_captured_name_def spec_first_token_def cl sp word_defs strip_chars_def
        name_strip_chars_def)
  show ?thesis
    using turn code spec by simp
qed

text \<open>The message \<^verbatim>\<open>",\n,"\<close>: what is left of the candidate between the stripped commas is
  a newline, which is not empty, so the test of line 176 lets it pass and
  \<^verbatim>\<open>name_candidate.split()[0]\<close> raises.\<close>

lemma name_capture_index_error:
  "handle_dialog_message example_env 0 (example_data Ask_name []) (text_message [44, 10, 44]) =
     Inl IndexError"
proof -
  let ?t = "[44, 10, 44] :: ustr"
  have cl: "strip ?t = ?t"
    by (simp add: strip_def isspace_def)
  have cand: "name_candidate example_env ?t = ?t"
    by (simp add: name_candidate_def example_defs word_defs)
  have sc: "strip_chars name_strip_chars ?t = [10]"
    by (simp add: strip_chars_def name_strip_chars_def)
  have sp: "str_split [10] = []"
    by (simp add: str_split_def isspace_def)
  have "ask_name example_env [Get_author 1] (example_data Ask_name []) ?t = Inl IndexError"
    unfolding ask_name_def cl Let_def cand sc sp by simp
  then show ?thesis
    by (simp add: text_message_def handle_in_dialog [OF example_in_dialog] dialog_turn_def
        stage_rules_def example_data_simps text_or_empty_def)
qed



lemma spec_name_of_commas: "spec_captured_name [44, 10, 44] = []"
proof -
  have cl: "strip [44, 10, 44] = [44, 10, 44]"
    by (simp add: strip_def isspace_def)
  have sp: "str_split [44, 10, 44] = [[44], [44]]"
    by (simp add: str_split_def isspace_def)
  show ?thesis
    by (simp add: spec_captured_name_def spec_first_token_def cl sp word_defs strip_chars_def
        name_strip_chars_def)
qed

text \<open>
  C4. The name capture of the specification takes the first whitespace-delimited token of
  the candidate and strips the surrounding punctuation from it. The handler strips the
  whole candidate first and takes the first token afterwards, and the two differ: for the
  message \<^verbatim>\<open>",\n,"\<close> the specification has an empty name and a reprompt, and the handler
  raises \<^verbatim>\<open>IndexError\<close>; for \<^verbatim>\<open>Pyotr, privet\<close> the specification has the name \<^verbatim>\<open>Pyotr\<close>, and
  the handler stores \<^verbatim>\<open>Pyotr,\<close> with the comma.
\<close>

theorem C4_name_capture_diverges:
  "handle_dialog_message example_env 0 (example_data Ask_name []) (text_message [44, 10, 44]) =
     Inl IndexError
   \<and> spec_captured_name [44, 10, 44] = []
   \<and> handle_dialog_message example_env 0 (example_data Ask_name [])
       (text_message [1055, 1105, 1090, 1088, 44, 32, 1087, 1088, 1080, 1074, 1077, 1090]) =
     Inr \<lparr>calls = [Get_author 1],
          replies = [msg_hello_pre @ [1055, 1105, 1090, 1088, 44] @ msg_hello_post],
          data = (example_data Offer_poem [])\<lparr>user_name := Some [1055, 1105, 1090, 1088, 44]\<rparr>\<rparr>
   \<and> spec_captured_name [1055, 1105, 1090, 1088, 44, 32, 1087, 1088, 1080, 1074, 1077, 1090]
       = [1055, 1105, 1090, 1088]"
  using name_capture_index_error spec_name_of_commas name_capture_keeps_comma by simp

lemma get_author_id: "get_author env aid = Some a \<Longrightarrow> author_id a = aid"
  by (auto simp add: get_author_def find_Some_iff)

lemma get_random_poem_row:
  assumes "get_random_poem env r aid ex = Some (title, text)"
  shows "\<exists>p \<in> set (poems env). poem_author_id p = aid \<and> poem_title p = title \<and> poem_text p = text
           \<and> (case ex of None \<Rightarrow> True | Some e \<Rightarrow> e = {} \<or> title \<notin> e)"
proof -
  let ?keep = "\<lambda>row. (case ex of None \<Rightarrow> True | Some e \<Rightarrow> e = {} \<or> poem_title row \<notin> e)"
  let ?cands = "map (\<lambda>row. (poem_title row, poem_text row)) (filter ?keep (poem_rows env aid))"
  from assms have ne: "?cands \<noteq> []" and pick: "(title, text) = ?cands ! (r mod length ?cands)"
    by (auto simp add: get_random_poem_def Let_def split: if_splits)
  from ne have "r mod length ?cands < length ?cands"
    by simp
  then have "?cands ! (r mod length ?cands) \<in> set ?cands"
    by (rule nth_mem)
  with pick have "(title, text) \<in> set ?cands"
    by simp
  then show ?thesis
    by (auto simp add: poem_rows_def)
qed

lemma titles_sent_append: "titles_sent env ud sent \<Longrightarrow> titles_sent env ud (sent @ texts)"
  by (fastforce simp add: titles_sent_def)

lemma titles_sent_same:
  "shown_titles ud' = shown_titles ud \<Longrightarrow> dialog_author_id ud' = dialog_author_id ud \<Longrightarrow>
   titles_sent env ud sent \<Longrightarrow> titles_sent env ud' (sent @ texts)"
  by (fastforce simp add: titles_sent_def)

lemma titles_sent_none: "shown_titles ud = [] \<Longrightarrow> titles_sent env ud sent"
  by (simp add: titles_sent_def)

text \<open>What one call of \<^verbatim>\<open>_send_random_poem\<close> does to the list of titles.\<close>

lemma send_random_poem_cases:
  assumes "send_random_poem env r author ud = (ok, out)"
  shows "dialog_author_id (data out) = dialog_author_id ud \<and> dialog_stage (data out) = dialog_stage ud
     \<and> ((\<not> ok \<and> shown_titles (data out) = [])
         \<or> (ok \<and> (\<exists>p \<in> set (poems env). poem_author_id p = author_id author
                 \<and> replies out = [poem_reply (poem_title p) (poem_text p)]
                 \<and> (shown_titles (data out) = shown_titles ud @ [poem_title p]
                      \<or> shown_titles (data out) = [poem_title p]))))"
proof (cases "get_random_poem env r (author_id author) (Some (set (shown_titles ud)))")
  case (Some poem)
  obtain ttl body where poem: "poem = (ttl, body)"
    by (cases poem)
  from get_random_poem_row [OF Some [unfolded poem]] obtain p where
    "p \<in> set (poems env)" "poem_author_id p = author_id author" "poem_title p = ttl"
    "poem_text p = body"
    by auto
  then show ?thesis
    using assms Some poem
    by (auto simp add: send_random_poem_def shown_titles_def Let_def)
next
  case None
  show ?thesis
  proof (cases "get_random_poem env r (author_id author) None")
    case n: None
    then show ?thesis
      using assms None by (auto simp add: send_random_poem_def shown_titles_def Let_def)
  next
    case (Some poem)
    obtain ttl body where poem: "poem = (ttl, body)"
      by (cases poem)
    from get_random_poem_row [OF Some [unfolded poem]] obtain p where
      "p \<in> set (poems env)" "poem_author_id p = author_id author" "poem_title p = ttl"
      "poem_text p = body"
      by auto
    then show ?thesis
      using assms None Some poem
      by (auto simp add: send_random_poem_def shown_titles_def Let_def)
  qed
qed

lemma ask_name_keeps_titles:
  "ask_name env cs ud t = Inr out \<Longrightarrow>
   shown_titles (data out) = shown_titles ud \<and> dialog_author_id (data out) = dialog_author_id ud"
  by (auto simp add: ask_name_def Let_def shown_titles_def split: if_splits list.splits)

lemma send_random_poem_records:
  assumes "send_random_poem env r author ud = (ok, out)"
    and "dialog_author_id ud = Some (author_id author)"
  shows "records_delivery env ud
           \<lparr>calls = cs @ calls out, replies = replies out,
            data = (if ok then (data out)\<lparr>dialog_stage := Some After_poem\<rparr> else data out)\<rparr>"
  using send_random_poem_cases [OF assms(1)] assms(2)
  by (auto simp add: records_delivery_def shown_titles_def)

lemma offer_poem_records:
  assumes "offer_poem env r cs author ud t = Some out"
    and "dialog_author_id ud = Some (author_id author)"
  shows "records_delivery env ud out"
proof (cases "send_random_poem env r author ud")
  case (Pair ok out')
  show ?thesis
    using assms(1) send_random_poem_records [OF Pair assms(2), of cs]
    by (auto simp add: offer_poem_def Let_def Pair records_delivery_def split: if_splits)
qed

lemma after_poem_records:
  assumes "after_poem env r cs author ud t = Some out"
    and "dialog_author_id ud = Some (author_id author)"
  shows "records_delivery env ud out"
proof (cases "send_random_poem env r author ud")
  case (Pair ok out')
  show ?thesis
    using assms(1) send_random_poem_records [OF Pair assms(2), of cs]
    by (auto simp add: after_poem_def Let_def Pair records_delivery_def split: if_splits)
qed

lemma resolution_chain_data: "data (resolution_chain env cs aid author ud t tl') = ud"
  by (simp add: resolution_chain_def Let_def split: option.splits)

lemma stage_rules_records:
  assumes "stage_rules env r cs aid author ud t tl' = Inr out"
    and "dialog_author_id ud = Some (author_id author)"
  shows "records_delivery env ud out"
proof (cases "dialog_stage ud = Some Ask_name")
  case True
  then show ?thesis
    using assms(1) ask_name_keeps_titles [of env cs ud t out]
    by (simp add: stage_rules_def records_delivery_def)
next
  case False
  note not_ask = this
  show ?thesis
  proof (cases "if dialog_stage ud = Some Offer_poem
                then offer_poem env r cs author ud tl' else None")
    case (Some o1)
    then have "out = o1" "offer_poem env r cs author ud tl' = Some o1"
      using assms(1) not_ask by (auto simp add: stage_rules_def Let_def split: if_splits)
    then show ?thesis
      using offer_poem_records [OF _ assms(2)] by blast
  next
    case None
    note no_offer = this
    show ?thesis
    proof (cases "if dialog_stage ud = Some After_poem
                  then after_poem env r cs author ud tl' else None")
      case (Some o2)
      then have "out = o2" "after_poem env r cs author ud tl' = Some o2"
        using assms(1) not_ask no_offer by (auto simp add: stage_rules_def Let_def split: if_splits)
      then show ?thesis
        using after_poem_records [OF _ assms(2)] by blast
    next
      case None
      then have "out = resolution_chain env cs aid author ud t tl'"
        using assms(1) not_ask no_offer by (auto simp add: stage_rules_def Let_def)
      then show ?thesis
        by (simp add: records_delivery_def resolution_chain_data)
    qed
  qed
qed

lemma handle_records:
  assumes "handle_dialog_message env r ud m = Inr out"
  shows "records_delivery env ud out"
proof (cases m)
  case None
  then show ?thesis
    using assms by (auto simp add: handle_dialog_message_def records_delivery_def)
next
  case (Some msg)
  show ?thesis
  proof (cases "dialog_author_id ud")
    case None
    then show ?thesis
      using assms Some by (auto simp add: handle_dialog_message_def records_delivery_def)
  next
    case aid: (Some aid)
    show ?thesis
    proof (cases "get_author env aid")
      case None
      then show ?thesis
        using assms Some aid
        by (auto simp add: handle_dialog_message_def records_delivery_def split: if_splits)
    next
      case author: (Some author)
      have id: "dialog_author_id ud = Some (author_id author)"
        using aid get_author_id [OF author] by simp
      show ?thesis
      proof (cases "aid = 0")
        case True
        then show ?thesis
          using assms Some aid by (auto simp add: handle_dialog_message_def records_delivery_def)
      next
        case False
        then have turn: "dialog_turn env r aid author ud (text_or_empty msg) = Inr out"
          using assms Some aid author by (simp add: handle_dialog_message_def)
        show ?thesis
        proof (cases "lower env (text_or_empty msg) \<in> {w_privet, w_zdravstvuy, w_zdravstvuyte}
                        \<and> dialog_stage ud \<noteq> Some Ask_name")
          case True
          then show ?thesis
            using turn
            by (auto simp add: dialog_turn_def Let_def records_delivery_def shown_titles_def
                split: option.splits)
        next
          case False
          then have "stage_rules env r [Get_author aid] aid author ud (text_or_empty msg)
                       (lower env (text_or_empty msg)) = Inr out"
            using turn by (auto simp add: dialog_turn_def Let_def)
          then show ?thesis
            using id by (rule stage_rules_records)
        qed
      qed
    qed
  qed
qed

lemma records_delivery_titles_sent:
  assumes "records_delivery env ud out" and "titles_sent env ud sent"
  shows "titles_sent env (data out) (sent @ replies out)"
proof -
  have id: "dialog_author_id (data out) = dialog_author_id ud"
    using assms(1) by (simp add: records_delivery_def)
  consider (same) "shown_titles (data out) = shown_titles ud"
    | (empty) "shown_titles (data out) = []"
    | (poem) p where "p \<in> set (poems env)" "Some (poem_author_id p) = dialog_author_id ud"
        "replies out = [poem_reply (poem_title p) (poem_text p)]"
        "shown_titles (data out) = shown_titles ud @ [poem_title p]
           \<or> shown_titles (data out) = [poem_title p]"
    using assms(1) unfolding records_delivery_def by blast
  then show ?thesis
  proof cases
    case same
    then show ?thesis
      using id assms(2) by (rule titles_sent_same)
  next
    case empty
    then show ?thesis
      by (rule titles_sent_none)
  next
    case poem
    have old: "titles_sent env ud (sent @ replies out)"
      using assms(2) by (rule titles_sent_append)
    show ?thesis
      unfolding titles_sent_def
    proof
      fix t assume t: "t \<in> set (shown_titles (data out))"
      show "\<exists>q \<in> set (poems env). Some (poem_author_id q) = dialog_author_id (data out)
               \<and> poem_title q = t
               \<and> poem_reply (poem_title q) (poem_text q) \<in> set (sent @ replies out)"
      proof (cases "t = poem_title p")
        case True
        then show ?thesis
          using poem(1-3) id by auto
      next
        case False
        then have "t \<in> set (shown_titles ud)"
          using t poem(4) by auto
        then show ?thesis
          using old id unfolding titles_sent_def by auto
      qed
    qed
  qed
qed

lemma unsent_titles:
  "shown_titles (unsent ud out) = shown_titles (data out)"
  "dialog_author_id (unsent ud out) = dialog_author_id (data out)"
  by (simp_all add: unsent_def shown_titles_def)

text \<open>\<open>unsent\<close> on the outcome of a turn that has called \<^verbatim>\<open>_send_random_poem\<close> is what that call
  has left: the stage of lines 197 and 204 is not set. On the outcome of a turn without
  such a call it is the user data of the outcome.\<close>

lemma unsent_after_delivery:
  assumes "send_random_poem env r author ud = (ok, out)"
  shows "unsent ud \<lparr>calls = cs @ calls out, replies = replies out,
                   data = (if ok then (data out)\<lparr>dialog_stage := Some After_poem\<rparr>
                           else data out)\<rparr> = data out"
proof -
  have stage: "dialog_stage (data out) = dialog_stage ud"
    using send_random_poem_cases [OF assms] by simp
  have "list_ex asks_random_poem (calls out)"
    using assms
    by (auto simp add: send_random_poem_def Let_def asks_random_poem_def split: option.splits)
  then show ?thesis
    using stage by (cases "data out") (auto simp add: unsent_def)
qed

lemma unsent_without_delivery:
  "\<not> list_ex asks_random_poem (calls out) \<Longrightarrow> unsent ud out = data out"
  by (simp add: unsent_def)

lemma titles_sent_unsent:
  assumes "titles_sent env (data out) texts"
  shows "titles_sent env (unsent ud out) texts"
  using assms by (simp add: titles_sent_def unsent_titles)

lemma reachable_titles_handed: "reachable env ud sent handed \<Longrightarrow> titles_sent env ud handed"
proof (induction rule: reachable.induct)
  case fresh
  show ?case by (simp add: titles_sent_def shown_titles_def)
next
  case (enter ud sent handed aid has_message k)
  then show ?case
    by (auto simp add: titles_sent_def shown_titles_def enter_dialog_def)
next
  case (enter_unknown ud sent handed aid has_message k)
  then show ?case
    by (auto simp add: enter_dialog_def intro: titles_sent_append)
next
  case (message ud sent handed r update_message out)
  then show ?case
    using handle_records records_delivery_titles_sent by blast
next
  case (message_unsent ud sent handed r update_message out)
  then have "titles_sent env (data out) (handed @ replies out)"
    using handle_records records_delivery_titles_sent by blast
  then show ?case
    by (rule titles_sent_unsent)
next
  case (stop ud sent handed has_message k)
  show ?case by (simp add: titles_sent_def shown_titles_def stop_dialog_def)
next
  case (finish ud sent handed)
  show ?case by (simp add: titles_sent_def shown_titles_def end_handler_def)
next
  case (finish_unsent ud sent handed)
  then show ?case by (simp add: titles_sent_append)
next
  case (menu ud sent handed k texts)
  then show ?case by (simp add: titles_sent_append)
qed

lemma titles_sent_subset:
  "titles_sent env ud handed \<Longrightarrow> set handed \<subseteq> set sent \<Longrightarrow> titles_sent env ud sent"
  by (fastforce simp add: titles_sent_def)

text \<open>
  C8 (as amended). In every state a session can reach, each title in the list of used
  poems is the title of a poem of the author of the dialogue, and the text that delivers
  this poem (its title and its text) has been handed to the transport since the dialogue
  was entered; where every text handed to the transport has been sent, the poem has been
  sent. \<^verbatim>\<open>enter_dialog\<close> starts with no title. A turn of \<^verbatim>\<open>handle_dialog_message\<close> keeps the
  titles, empties them, or records the title of the one poem whose title and text it
  sends, and it records the title before it awaits the send: the titles are the same
  whether the send returns or raises.
\<close>

theorem C8_shown_titles_were_handed_over:
  "(reachable env ud sent handed \<longrightarrow>
      (\<forall>t \<in> set (shown_titles ud).
         \<exists>p \<in> set (poems env).
           Some (poem_author_id p) = dialog_author_id ud \<and> poem_title p = t
           \<and> poem_reply (poem_title p) (poem_text p) \<in> set handed))
   \<and> (reachable env ud sent handed \<and> set handed \<subseteq> set sent \<longrightarrow>
      (\<forall>t \<in> set (shown_titles ud).
         \<exists>p \<in> set (poems env).
           Some (poem_author_id p) = dialog_author_id ud \<and> poem_title p = t
           \<and> poem_reply (poem_title p) (poem_text p) \<in> set sent))
   \<and> (get_author env aid \<noteq> None \<longrightarrow>
        shown_titles (data (enter_dialog env aid has_message ud')) = [])
   \<and> (handle_dialog_message env r ud' update_message = Inr out \<longrightarrow>
        records_delivery env ud' out
        \<and> shown_titles (unsent ud' out) = shown_titles (data out))"
proof (intro conjI impI)
  assume "reachable env ud sent handed"
  then have "titles_sent env ud handed"
    by (rule reachable_titles_handed)
  then show "\<forall>t \<in> set (shown_titles ud).
         \<exists>p \<in> set (poems env).
           Some (poem_author_id p) = dialog_author_id ud \<and> poem_title p = t
           \<and> poem_reply (poem_title p) (poem_text p) \<in> set handed"
    by (simp add: titles_sent_def)
next
  assume "reachable env ud sent handed \<and> set handed \<subseteq> set sent"
  then have "titles_sent env ud sent"
    using reachable_titles_handed titles_sent_subset by blast
  then show "\<forall>t \<in> set (shown_titles ud).
         \<exists>p \<in> set (poems env).
           Some (poem_author_id p) = dialog_author_id ud \<and> poem_title p = t
           \<and> poem_reply (poem_title p) (poem_text p) \<in> set sent"
    by (simp add: titles_sent_def)
next
  assume "get_author env aid \<noteq> None"
  then show "shown_titles (data (enter_dialog env aid has_message ud')) = []"
    by (auto simp add: enter_dialog_def shown_titles_def)
next
  assume "handle_dialog_message env r ud' update_message = Inr out"
  then show "records_delivery env ud' out"
    by (rule handle_records)
next
  show "shown_titles (unsent ud' out) = shown_titles (data out)"
    by (rule unsent_titles)
qed

text \<open>Facts for the two examples that follow: a session that enters the dialogue, gives
  the name \<^verbatim>\<open>Anna\<close> and answers \<^verbatim>\<open>da\<close> to the offer of a poem.\<close>

lemma example_session_offer:
  "reachable example_env
     ((example_data Offer_poem [])\<lparr>user_name := Some [1040, 1085, 1085, 1072]\<rparr>)
     [msg_entered_pre @ author_name example_author @ msg_entered_post, msg_greeting,
      msg_hello_pre @ [1040, 1085, 1085, 1072] @ msg_hello_post]
     [msg_entered_pre @ author_name example_author @ msg_entered_post, msg_greeting,
      msg_hello_pre @ [1040, 1085, 1085, 1072] @ msg_hello_post]"
proof -
  let ?fresh = "\<lparr>dialog_author_id = None, dialog_author_name = None, dialog_stage = None,
                 poems_used = None, user_name = None\<rparr>"
  let ?anna = "[1040, 1085, 1085, 1072] :: ustr"
  let ?ud1 = "example_data Ask_name []"
  let ?ud2 = "(example_data Offer_poem [])\<lparr>user_name := Some ?anna\<rparr>"
  let ?s1 = "[msg_entered_pre @ author_name example_author @ msg_entered_post, msg_greeting]"
  let ?hello = "msg_hello_pre @ ?anna @ msg_hello_post"
  have author: "get_author example_env 1 = Some example_author"
    by (simp add: example_defs)
  have enter: "enter_dialog example_env 1 True ?fresh =
                 \<lparr>calls = [Get_author 1], replies = ?s1, data = ?ud1\<rparr>"
    by (simp add: enter_dialog_def author example_data_def)
  have r0: "reachable example_env ?fresh [] []"
    by (rule reachable.fresh)
  have "reachable example_env (data (enter_dialog example_env 1 True ?fresh))
          (take 2 (replies (enter_dialog example_env 1 True ?fresh)))
          (take (Suc 2) (replies (enter_dialog example_env 1 True ?fresh)))"
    using r0 by (rule reachable.enter) (simp add: author)
  then have r1: "reachable example_env ?ud1 ?s1 ?s1"
    unfolding enter by simp
  have cl: "strip ?anna = ?anna"
    by (simp add: strip_def isspace_def)
  have cand: "name_candidate example_env ?anna = ?anna"
    by (simp add: name_candidate_def example_defs word_defs)
  have sc: "strip_chars name_strip_chars ?anna = ?anna"
    by (simp add: strip_chars_def name_strip_chars_def)
  have sp: "str_split ?anna = [?anna]"
    by (simp add: str_split_def isspace_def)
  have ask: "ask_name example_env [Get_author 1] ?ud1 ?anna =
               Inr \<lparr>calls = [Get_author 1], replies = [?hello], data = ?ud2\<rparr>"
    unfolding ask_name_def cl Let_def cand sc sp by (simp add: example_data_def)
  have h2: "handle_dialog_message example_env 0 ?ud1 (text_message ?anna) =
              Inr \<lparr>calls = [Get_author 1], replies = [?hello], data = ?ud2\<rparr>"
    by (simp add: text_message_def handle_in_dialog [OF example_in_dialog] dialog_turn_def
        stage_rules_def example_data_simps text_or_empty_def ask)
  show ?thesis
    using reachable.message [OF r1 h2] by simp
qed

lemma example_turn_da:
  "handle_dialog_message example_env 0
     ((example_data Offer_poem [])\<lparr>user_name := Some [1040, 1085, 1085, 1072]\<rparr>)
     (text_message [1076, 1072]) =
     Inr \<lparr>calls = [Get_author 1, Get_random_poem 1 (Some {})], replies = [[65, 10, 10, 120]],
          data = (example_data After_poem [[65]])\<lparr>user_name := Some [1040, 1085, 1085, 1072]\<rparr>\<rparr>"
proof -
  let ?anna = "[1040, 1085, 1085, 1072] :: ustr"
  let ?da = "[1076, 1072] :: ustr"
  let ?ud2 = "(example_data Offer_poem [])\<lparr>user_name := Some ?anna\<rparr>"
  let ?ud3 = "(example_data After_poem [[65]])\<lparr>user_name := Some ?anna\<rparr>"
  let ?out3 = "\<lparr>calls = [Get_author 1, Get_random_poem 1 (Some {})], replies = [[65, 10, 10, 120]],
                data = ?ud3\<rparr>"
  have dlg2: "in_dialog example_env ?ud2 1 example_author"
    by (simp add: in_dialog_def example_defs)
  have low: "lower example_env ?da = ?da"
    by (simp add: example_defs)
  have tok: "tokenize ?da = {w_da}"
    by (simp add: word_defs string_defs)
  have pick: "send_random_poem example_env 0 example_author ?ud2 =
                (True, \<lparr>calls = [Get_random_poem 1 (Some {})], replies = [[65, 10, 10, 120]],
                        data = (example_data Offer_poem [[65]])\<lparr>user_name := Some ?anna\<rparr>\<rparr>)"
    by (simp add: send_random_poem_def get_random_poem_def poem_reply_def example_env_def
        example_author_def poem_rows_def example_data_def)
  have offer: "offer_poem example_env 0 [Get_author 1] example_author ?ud2 ?da = Some ?out3"
    unfolding offer_poem_def tok Let_def pick
    by (simp add: word_defs contains_def example_data_def)
  have st2: "dialog_stage ?ud2 = Some Offer_poem"
    by (simp add: example_data_def)
  have ng: "?da \<noteq> w_privet" "?da \<noteq> w_zdravstvuy" "?da \<noteq> w_zdravstvuyte"
    by (simp_all add: word_defs)
  show ?thesis
    unfolding text_message_def handle_in_dialog [OF dlg2] dialog_turn_def
    by (simp add: text_or_empty_def low stage_rules_def offer st2 ng Let_def)
qed

text \<open>The claim as stated fails: the send of the poem raises, the title \<^verbatim>\<open>A\<close> stays recorded,
  and the text of the poem is not among the texts sent.\<close>

theorem C8_counterexample:
  "reachable example_env
     ((example_data Offer_poem [[65]])\<lparr>user_name := Some [1040, 1085, 1085, 1072]\<rparr>)
     [msg_entered_pre @ author_name example_author @ msg_entered_post, msg_greeting,
      msg_hello_pre @ [1040, 1085, 1085, 1072] @ msg_hello_post]
     [msg_entered_pre @ author_name example_author @ msg_entered_post, msg_greeting,
      msg_hello_pre @ [1040, 1085, 1085, 1072] @ msg_hello_post, [65, 10, 10, 120]]
   \<and> shown_titles ((example_data Offer_poem [[65]])\<lparr>user_name := Some [1040, 1085, 1085, 1072]\<rparr>)
       = [[65]]
   \<and> \<not> titles_sent example_env
         ((example_data Offer_poem [[65]])\<lparr>user_name := Some [1040, 1085, 1085, 1072]\<rparr>)
         [msg_entered_pre @ author_name example_author @ msg_entered_post, msg_greeting,
          msg_hello_pre @ [1040, 1085, 1085, 1072] @ msg_hello_post]"
proof -
  let ?anna = "[1040, 1085, 1085, 1072] :: ustr"
  let ?ud2 = "(example_data Offer_poem [])\<lparr>user_name := Some ?anna\<rparr>"
  let ?ud3 = "(example_data After_poem [[65]])\<lparr>user_name := Some ?anna\<rparr>"
  let ?left = "(example_data Offer_poem [[65]])\<lparr>user_name := Some ?anna\<rparr>"
  let ?out3 = "\<lparr>calls = [Get_author 1, Get_random_poem 1 (Some {})], replies = [[65, 10, 10, 120]],
                data = ?ud3\<rparr>"
  let ?sent = "[msg_entered_pre @ author_name example_author @ msg_entered_post, msg_greeting,
                msg_hello_pre @ ?anna @ msg_hello_post]"
  have left: "unsent ?ud2 ?out3 = ?left"
    by (simp add: unsent_def asks_random_poem_def example_data_def)
  have "reachable example_env (unsent ?ud2 ?out3) ?sent (?sent @ replies ?out3)"
    using example_session_offer example_turn_da by (rule reachable.message_unsent) simp
  then have reach: "reachable example_env ?left ?sent (?sent @ [[65, 10, 10, 120]])"
    unfolding left by simp
  have titles: "shown_titles ?left = [[65]]"
    by (simp add: shown_titles_def example_data_def)
  have "[65, 10, 10, 120] \<notin> set ?sent"
    by (simp add: msg_entered_pre_def msg_greeting_def msg_hello_pre_def)
  then have "\<not> titles_sent example_env ?left ?sent"
    unfolding titles_sent_def titles
    by (auto simp add: example_env_def poem_reply_def)
  then show ?thesis
    using reach titles by simp
qed

theorem C8_witness:
  "reachable example_env
     ((example_data After_poem [[65]])\<lparr>user_name := Some [1040, 1085, 1085, 1072]\<rparr>)
     [msg_entered_pre @ author_name example_author @ msg_entered_post, msg_greeting,
      msg_hello_pre @ [1040, 1085, 1085, 1072] @ msg_hello_post, [65, 10, 10, 120]]
     [msg_entered_pre @ author_name example_author @ msg_entered_post, msg_greeting,
      msg_hello_pre @ [1040, 1085, 1085, 1072] @ msg_hello_post, [65, 10, 10, 120]]
   \<and> [65, 10, 10, 120] \<in> set
       [msg_entered_pre @ author_name example_author @ msg_entered_post, msg_greeting,
        msg_hello_pre @ [1040, 1085, 1085, 1072] @ msg_hello_post, [65, 10, 10, 120]]
   \<and> shown_titles (data (enter_dialog example_env 1 True (example_data After_poem [[65]]))) = []
   \<and> records_delivery example_env
       ((example_data Offer_poem [])\<lparr>user_name := Some [1040, 1085, 1085, 1072]\<rparr>)
       \<lparr>calls = [Get_author 1, Get_random_poem 1 (Some {})], replies = [[65, 10, 10, 120]],
        data = (example_data After_poem [[65]])\<lparr>user_name := Some [1040, 1085, 1085, 1072]\<rparr>\<rparr>
   \<and> shown_titles
       (unsent ((example_data Offer_poem [])\<lparr>user_name := Some [1040, 1085, 1085, 1072]\<rparr>)
          \<lparr>calls = [Get_author 1, Get_random_poem 1 (Some {})], replies = [[65, 10, 10, 120]],
           data = (example_data After_poem [[65]])\<lparr>user_name := Some [1040, 1085, 1085, 1072]\<rparr>\<rparr>)
       = [[65]]"
proof -
  let ?anna = "[1040, 1085, 1085, 1072] :: ustr"
  let ?da = "[1076, 1072] :: ustr"
  let ?ud2 = "(example_data Offer_poem [])\<lparr>user_name := Some ?anna\<rparr>"
  let ?ud3 = "(example_data After_poem [[65]])\<lparr>user_name := Some ?anna\<rparr>"
  let ?sent = "[msg_entered_pre @ author_name example_author @ msg_entered_post, msg_greeting,
                msg_hello_pre @ ?anna @ msg_hello_post]"
  let ?out3 = "\<lparr>calls = [Get_author 1, Get_random_poem 1 (Some {})], replies = [[65, 10, 10, 120]],
                data = ?ud3\<rparr>"
  have author: "get_author example_env 1 = Some example_author"
    by (simp add: example_defs)
  have r3: "reachable example_env ?ud3 (?sent @ [[65, 10, 10, 120]]) (?sent @ [[65, 10, 10, 120]])"
    using reachable.message [OF example_session_offer example_turn_da] by simp
  have titles: "shown_titles ?ud3 = [[65]]"
    by (simp add: shown_titles_def example_data_def)
  have "[65, 10, 10, 120] \<in> set (?sent @ [[65, 10, 10, 120]])"
  proof -
    have "\<forall>t \<in> set (shown_titles ?ud3).
            \<exists>p \<in> set (poems example_env).
              Some (poem_author_id p) = dialog_author_id ?ud3 \<and> poem_title p = t
              \<and> poem_reply (poem_title p) (poem_text p) \<in> set (?sent @ [[65, 10, 10, 120]])"
      using C8_shown_titles_were_handed_over
              [of example_env ?ud3 "?sent @ [[65, 10, 10, 120]]" "?sent @ [[65, 10, 10, 120]]"] r3
      by blast
    moreover have "[65] \<in> set (shown_titles ?ud3)"
      unfolding titles by simp
    ultimately obtain p where p: "p \<in> set (poems example_env)" "poem_title p = [65]"
      and sent: "poem_reply (poem_title p) (poem_text p) \<in> set (?sent @ [[65, 10, 10, 120]])"
      by blast
    from p have "poem_text p = [120]"
      by (auto simp add: example_env_def)
    with p(2) sent show ?thesis
      by (simp add: poem_reply_def)
  qed
  moreover have "shown_titles (data (enter_dialog example_env 1 True (example_data After_poem [[65]]))) = []"
    using C8_shown_titles_were_handed_over
            [where env = example_env and aid = 1 and has_message = True
               and ud' = "example_data After_poem [[65]]"]
      author by simp
  moreover have "records_delivery example_env ?ud2 ?out3
                   \<and> shown_titles (unsent ?ud2 ?out3) = shown_titles (data ?out3)"
    using C8_shown_titles_were_handed_over
            [where env = example_env and r = 0 and ud' = ?ud2
               and update_message = "text_message ?da" and out = ?out3]
      example_turn_da by blast
  ultimately show ?thesis
    using r3 titles by simp
qed

lemma get_random_poem_unfiltered:
  "get_random_poem env r aid None =
     (if poem_rows env aid = [] then None
      else Some (poem_title (poem_rows env aid ! (r mod length (poem_rows env aid))),
                 poem_text (poem_rows env aid ! (r mod length (poem_rows env aid)))))"
  by (simp add: get_random_poem_def Let_def)

lemma get_random_poem_no_rows:
  "poem_rows env aid = [] \<Longrightarrow> get_random_poem env r aid ex = None"
  by (simp add: get_random_poem_def)

lemma get_random_poem_all_excluded:
  assumes "poem_rows env aid \<noteq> []"
    and "set (map poem_title (poem_rows env aid)) \<subseteq> used"
  shows "get_random_poem env r aid (Some used) = None"
proof -
  from assms have "used \<noteq> {}"
    by (cases "poem_rows env aid") auto
  moreover have "filter (\<lambda>row. poem_title row \<notin> used) (poem_rows env aid) = []"
    using assms(2) by (auto simp add: filter_empty_conv)
  ultimately show ?thesis
    by (simp add: get_random_poem_def)
qed

lemma get_random_poem_unseen:
  assumes "get_random_poem env r aid (Some used) = Some (ttl, body)"
  shows "\<exists>p \<in> set (poem_rows env aid). poem_title p = ttl \<and> poem_text p = body
           \<and> (used = {} \<or> ttl \<notin> used)"
proof -
  let ?keep = "\<lambda>row. used = {} \<or> poem_title row \<notin> used"
  let ?cands = "map (\<lambda>row. (poem_title row, poem_text row)) (filter ?keep (poem_rows env aid))"
  from assms have ne: "?cands \<noteq> []" and pick: "(ttl, body) = ?cands ! (r mod length ?cands)"
    by (auto simp add: get_random_poem_def Let_def split: if_splits)
  from ne have "r mod length ?cands < length ?cands"
    by simp
  then have "?cands ! (r mod length ?cands) \<in> set ?cands"
    by (rule nth_mem)
  with pick have "(ttl, body) \<in> set ?cands"
    by simp
  then show ?thesis
    by auto
qed

lemma get_random_poem_some_left:
  assumes "distinct (map poem_title (poem_rows env aid))"
    and "length used < length (poem_rows env aid)"
  shows "get_random_poem env r aid (Some (set used)) \<noteq> None"
proof -
  let ?rows = "poem_rows env aid"
  have "\<exists>row \<in> set ?rows. poem_title row \<notin> set used"
  proof (rule ccontr)
    assume "\<not> (\<exists>row \<in> set ?rows. poem_title row \<notin> set used)"
    then have "set (map poem_title ?rows) \<subseteq> set used"
      by auto
    then have "card (set (map poem_title ?rows)) \<le> card (set used)"
      by (simp add: card_mono)
    moreover have "card (set (map poem_title ?rows)) = length ?rows"
      using assms(1) distinct_card by fastforce
    moreover have "card (set used) \<le> length used"
      by (rule card_length)
    ultimately show False
      using assms(2) by simp
  qed
  then have "filter (\<lambda>row. set used = {} \<or> poem_title row \<notin> set used) ?rows \<noteq> []"
    by (auto simp add: filter_empty_conv)
  then show ?thesis
    by (simp add: get_random_poem_def Let_def)
qed

lemma send_random_poem_succeeds_iff:
  "fst (send_random_poem env r author ud) \<longleftrightarrow> poem_rows env (author_id author) \<noteq> []"
  by (auto simp add: send_random_poem_def Let_def get_random_poem_unfiltered
      get_random_poem_no_rows split: option.splits)

lemma send_random_poem_no_poems:
  "poem_rows env (author_id author) = [] \<Longrightarrow>
   replies (snd (send_random_poem env r author ud)) = [msg_no_poems]"
  by (simp add: send_random_poem_def Let_def get_random_poem_no_rows)

lemma send_random_poem_reset:
  assumes "rows = poem_rows env (author_id author)"
    and "rows \<noteq> []"
    and "set (map poem_title rows) \<subseteq> set (shown_titles ud)"
    and "p = rows ! (r mod length rows)"
  shows "send_random_poem env r author ud =
           (True,
            \<lparr>calls = [Get_random_poem (author_id author) (Some (set (shown_titles ud))),
                      Get_random_poem (author_id author) None],
             replies = [poem_reply (poem_title p) (poem_text p)],
             data = ud\<lparr>poems_used := Some [poem_title p]\<rparr>\<rparr>)"
proof -
  have "get_random_poem env r (author_id author) (Some (set (shown_titles ud))) = None"
    using assms(1-3) by (intro get_random_poem_all_excluded) simp_all
  then show ?thesis
    using assms(1,2,4)
    by (simp add: send_random_poem_def shown_titles_def Let_def get_random_poem_unfiltered)
qed

lemma send_random_poem_unseen:
  assumes "distinct (map poem_title (poem_rows env (author_id author)))"
    and "length (shown_titles ud) < length (poem_rows env (author_id author))"
  shows "\<exists>p \<in> set (poem_rows env (author_id author)).
           poem_title p \<notin> set (shown_titles ud)
           \<and> replies (snd (send_random_poem env r author ud))
               = [poem_reply (poem_title p) (poem_text p)]
           \<and> shown_titles (data (snd (send_random_poem env r author ud)))
               = shown_titles ud @ [poem_title p]"
proof -
  let ?aid = "author_id author"
  from get_random_poem_some_left [OF assms]
  obtain ttl body where
    some: "get_random_poem env r ?aid (Some (set (shown_titles ud))) = Some (ttl, body)"
    by fastforce
  from get_random_poem_unseen [OF some] obtain p where
    p: "p \<in> set (poem_rows env ?aid)" "poem_title p = ttl" "poem_text p = body"
      "set (shown_titles ud) = {} \<or> ttl \<notin> set (shown_titles ud)"
    by blast
  then have "poem_title p \<notin> set (shown_titles ud)"
    by auto
  moreover have "replies (snd (send_random_poem env r author ud))
                   = [poem_reply (poem_title p) (poem_text p)]"
    "shown_titles (data (snd (send_random_poem env r author ud))) = shown_titles ud @ [poem_title p]"
    using some p(2,3) by (simp_all add: send_random_poem_def shown_titles_def Let_def)
  ultimately show ?thesis
    using p(1) by blast
qed

lemma send_poems_unseen:
  assumes "distinct (map poem_title (poem_rows env (author_id author)))"
    and "length (shown_titles ud) + length rs \<le> length (poem_rows env (author_id author))"
    and "distinct (shown_titles ud)"
  shows "\<exists>ps. set ps \<subseteq> set (poem_rows env (author_id author)) \<and> length ps = length rs
           \<and> fst (send_poems env author rs ud)
               = map (\<lambda>p. poem_reply (poem_title p) (poem_text p)) ps
           \<and> shown_titles (snd (send_poems env author rs ud))
               = shown_titles ud @ map poem_title ps
           \<and> distinct (shown_titles ud @ map poem_title ps)"
  using assms(2,3)
proof (induction rs arbitrary: ud)
  case Nil
  then show ?case by simp
next
  case (Cons r rs)
  let ?out = "snd (send_random_poem env r author ud)"
  from Cons.prems(1) have "length (shown_titles ud) < length (poem_rows env (author_id author))"
    by simp
  from send_random_poem_unseen [OF assms(1) this, of r] obtain p where
    p: "p \<in> set (poem_rows env (author_id author))" "poem_title p \<notin> set (shown_titles ud)"
      "replies ?out = [poem_reply (poem_title p) (poem_text p)]"
      "shown_titles (data ?out) = shown_titles ud @ [poem_title p]"
    by blast
  have "length (shown_titles (data ?out)) + length rs \<le> length (poem_rows env (author_id author))"
    and "distinct (shown_titles (data ?out))"
    using Cons.prems p(2,4) by simp_all
  from Cons.IH [OF this] obtain ps where
    ps: "set ps \<subseteq> set (poem_rows env (author_id author))" "length ps = length rs"
      "fst (send_poems env author rs (data ?out))
         = map (\<lambda>p. poem_reply (poem_title p) (poem_text p)) ps"
      "shown_titles (snd (send_poems env author rs (data ?out)))
         = shown_titles (data ?out) @ map poem_title ps"
      "distinct (shown_titles (data ?out) @ map poem_title ps)"
    by blast
  have run: "send_poems env author (r # rs) ud =
               (replies ?out @ fst (send_poems env author rs (data ?out)),
                snd (send_poems env author rs (data ?out)))"
    by (simp add: Let_def split_beta)
  show ?case
    using p ps unfolding run by (intro exI [of _ "p # ps"]) simp
qed

lemma send_poems_each_once:
  assumes "rows = poem_rows env (author_id author)"
    and "distinct (map poem_title rows)"
    and "shown_titles ud = []"
    and "length rs = length rows"
  shows "\<exists>ps. distinct ps \<and> set ps = set rows \<and> length ps = length rows
           \<and> fst (send_poems env author rs ud)
               = map (\<lambda>p. poem_reply (poem_title p) (poem_text p)) ps
           \<and> shown_titles (snd (send_poems env author rs ud)) = map poem_title ps"
proof -
  from send_poems_unseen [of env author ud rs] assms obtain ps where
    ps: "set ps \<subseteq> set rows" "length ps = length rs"
      "fst (send_poems env author rs ud) = map (\<lambda>p. poem_reply (poem_title p) (poem_text p)) ps"
      "shown_titles (snd (send_poems env author rs ud)) = map poem_title ps"
      "distinct (map poem_title ps)"
    by auto
  have d: "distinct ps"
    using ps(5) by (simp add: distinct_map)
  have "distinct rows"
    using assms(2) by (simp add: distinct_map)
  then have "card (set rows) = length rows"
    by (rule distinct_card)
  moreover have "card (set ps) = length ps"
    using d by (rule distinct_card)
  ultimately have "set ps = set rows"
    using ps(1,2) assms(4) by (intro card_subset_eq) simp_all
  then show ?thesis
    using d ps assms(4) by auto
qed

text \<open>
  C2 (as amended). \<^verbatim>\<open>_send_random_poem\<close> fails exactly when the author has no poem, and
  then it sends the text that nothing is at hand. When every poem of the author is
  excluded, the list of used poems is emptied and the choice is made among all poems of
  the author, so that every one of them can be chosen again. When no two poems of the
  author share a title, as many calls as the author has poems, starting with no poem used,
  deliver every poem exactly once.
\<close>

theorem C2_random_poem_picker:
  assumes "rows = poem_rows env (author_id author)"
  shows "(fst (send_random_poem env r author ud) \<longleftrightarrow> rows \<noteq> [])
     \<and> (rows = [] \<longrightarrow> replies (snd (send_random_poem env r author ud)) = [msg_no_poems])
     \<and> (rows \<noteq> [] \<and> set (map poem_title rows) \<subseteq> set (shown_titles ud) \<longrightarrow>
          send_random_poem env r author ud =
            (True,
             \<lparr>calls = [Get_random_poem (author_id author) (Some (set (shown_titles ud))),
                       Get_random_poem (author_id author) None],
              replies = [poem_reply (poem_title (rows ! (r mod length rows)))
                           (poem_text (rows ! (r mod length rows)))],
              data = ud\<lparr>poems_used := Some [poem_title (rows ! (r mod length rows))]\<rparr>\<rparr>))
     \<and> (distinct (map poem_title rows) \<and> shown_titles ud = [] \<and> length rs = length rows \<longrightarrow>
          (\<exists>ps. distinct ps \<and> set ps = set rows \<and> length ps = length rows
             \<and> fst (send_poems env author rs ud)
                 = map (\<lambda>p. poem_reply (poem_title p) (poem_text p)) ps
             \<and> shown_titles (snd (send_poems env author rs ud)) = map poem_title ps))"
proof (intro conjI impI)
  show "fst (send_random_poem env r author ud) = (rows \<noteq> [])"
    unfolding assms by (rule send_random_poem_succeeds_iff)
next
  assume "rows = []"
  then show "replies (snd (send_random_poem env r author ud)) = [msg_no_poems]"
    unfolding assms by (rule send_random_poem_no_poems)
next
  assume "rows \<noteq> [] \<and> set (map poem_title rows) \<subseteq> set (shown_titles ud)"
  then show "send_random_poem env r author ud =
            (True,
             \<lparr>calls = [Get_random_poem (author_id author) (Some (set (shown_titles ud))),
                       Get_random_poem (author_id author) None],
              replies = [poem_reply (poem_title (rows ! (r mod length rows)))
                           (poem_text (rows ! (r mod length rows)))],
              data = ud\<lparr>poems_used := Some [poem_title (rows ! (r mod length rows))]\<rparr>\<rparr>)"
    using send_random_poem_reset [OF assms _ _ refl] by blast
next
  assume "distinct (map poem_title rows) \<and> shown_titles ud = [] \<and> length rs = length rows"
  then show "\<exists>ps. distinct ps \<and> set ps = set rows \<and> length ps = length rows
             \<and> fst (send_poems env author rs ud)
                 = map (\<lambda>p. poem_reply (poem_title p) (poem_text p)) ps
             \<and> shown_titles (snd (send_poems env author rs ud)) = map poem_title ps"
    using send_poems_each_once [OF assms] by blast
qed

text \<open>The claim as stated fails for an author with two poems of the same title: two calls
  deliver the first poem twice and the second poem not at all.\<close>

theorem C2_counterexample:
  "send_poems
     (example_env\<lparr>poems := [\<lparr>poem_author_id = 1, poem_title = [65], poem_text = [120],
                              poem_keywords = []\<rparr>,
                            \<lparr>poem_author_id = 1, poem_title = [65], poem_text = [121],
                              poem_keywords = []\<rparr>]\<rparr>)
     example_author [0, 0] (example_data After_poem []) =
     ([[65, 10, 10, 120], [65, 10, 10, 120]], example_data After_poem [[65]])"
  by (simp add: send_random_poem_def get_random_poem_def poem_reply_def poem_rows_def
      example_env_def example_author_def example_data_def)

theorem C2_witness:
  "fst (send_random_poem example_env 0 example_author (example_data After_poem []))
   \<and> replies (snd (send_random_poem (example_env\<lparr>poems := []\<rparr>) 0 example_author
                    (example_data After_poem []))) = [msg_no_poems]
   \<and> send_random_poem example_env 5 example_author (example_data After_poem [[65], [66]]) =
       (True, \<lparr>calls = [Get_random_poem 1 (Some {[65], [66]}), Get_random_poem 1 None],
               replies = [[66, 10, 10, 121]],
               data = example_data After_poem [[66]]\<rparr>)
   \<and> set (fst (send_poems example_env example_author [0, 0] (example_data After_poem [])))
       = {[65, 10, 10, 120], [66, 10, 10, 121]}"
proof -
  let ?A = "\<lparr>poem_author_id = 1, poem_title = [65], poem_text = [120],
             poem_keywords = [[1079, 1080, 1084, 1072]]\<rparr>"
  let ?B = "\<lparr>poem_author_id = 1, poem_title = [66], poem_text = [121],
             poem_keywords = [[1084, 1086, 1088, 1077]]\<rparr>"
  have rows: "[?A, ?B] = poem_rows example_env (author_id example_author)"
    by (simp add: poem_rows_def example_env_def example_author_def)
  have none: "[] = poem_rows (example_env\<lparr>poems := []\<rparr>) (author_id example_author)"
    by (simp add: poem_rows_def)
  have aid: "author_id example_author = 1"
    by (simp add: example_author_def)
  have 1: "fst (send_random_poem example_env 0 example_author (example_data After_poem []))"
    using C2_random_poem_picker [OF rows, of 0 "example_data After_poem []"] by simp
  have 2: "replies (snd (send_random_poem (example_env\<lparr>poems := []\<rparr>) 0 example_author
                    (example_data After_poem []))) = [msg_no_poems]"
    using C2_random_poem_picker [OF none, of 0 "example_data After_poem []"] by simp
  have shown: "shown_titles (example_data After_poem [[65], [66]]) = [[65], [66]]"
    "shown_titles (example_data After_poem []) = []"
    by (simp_all add: shown_titles_def example_data_def)
  have two: "length [?A, ?B] = 2"
    by simp
  have m: "(5::nat) mod length [?A, ?B] = Suc 0"
    unfolding two by simp
  have 3: "send_random_poem example_env 5 example_author (example_data After_poem [[65], [66]]) =
       (True, \<lparr>calls = [Get_random_poem 1 (Some {[65], [66]}), Get_random_poem 1 None],
               replies = [[66, 10, 10, 121]],
               data = example_data After_poem [[66]]\<rparr>)"
    using C2_random_poem_picker [OF rows, of 5 "example_data After_poem [[65], [66]]"]
    unfolding shown aid m by (simp add: poem_reply_def example_data_simps)
  obtain ps where ps: "set ps = {?A, ?B}"
    and texts: "fst (send_poems example_env example_author [0, 0] (example_data After_poem []))
                  = map (\<lambda>p. poem_reply (poem_title p) (poem_text p)) ps"
    using C2_random_poem_picker [OF rows, of 0 "example_data After_poem []" "[0, 0]"]
    unfolding shown by auto
  have 4: "set (fst (send_poems example_env example_author [0, 0] (example_data After_poem [])))
             = {[65, 10, 10, 120], [66, 10, 10, 121]}"
    unfolding texts set_map ps by (simp add: poem_reply_def)
  show ?thesis
    using 1 2 3 4 by simp
qed

end
